theory Spec2Isabelle
  imports Complex_Main
begin

section \<open>Conventions of the embedding\<close>

text \<open>
  The NETRA backend is Python. Its values are embedded as follows.
  \<^item> A \<open>float\<close> that comes out of the gateway's JSON, or is computed from one (distances,
    confidences, coordinates), is a \<open>pyfloat\<close>: an IEEE double, finite, infinite or NaN.
    \<open>Fin x\<close> stands for the double nearest to \<open>x\<close>, so that a decimal can be written as it is
    in the JSON text, and every operation rounds its result to the nearest double, ties to
    even. The sign of a zero is not kept, and a JSON integer is not told from the float of
    the same value.
  \<^item> A reading of the clock (\<open>time.time()\<close>) is a \<open>real\<close>, and sums and differences of clock
    readings are read exactly. The clock is not a function of the state: every reading is
    an argument of the function that reads it, one argument per reading.
  \<^item> A Python \<open>int\<close> is an \<open>int\<close>.
  \<^item> A Python \<open>str\<close> is a \<open>string\<close>: its characters are the code points below 256.
  \<^item> A \<open>dict\<close> whose keys are data (tracked objects, announced subjects) is an
    association list in insertion order, as Python dictionaries keep it.
  \<^item> A JSON object received from the perception gateway for a frame is a record of
    fields. A field is absent, or \<open>null\<close>, or holds a value of the type that the prompt's
    schema gives it; \<open>dict.get\<close> turns it into \<open>None\<close> or a value.
  \<^item> An exception is a value of the type \<open>exn\<close>; a function that can raise returns a sum
    whose left injection is the exception, next to the state at the moment of the raise
    where the function has changed the state before.
\<close>

datatype exn =
    TimeoutError | IndexError | AttributeError | TypeError | ValueError | OverflowError
  | OtherError string

subsection \<open>Strings\<close>

text \<open>
  \<open>str.lower\<close> on the code points below 256: the capitals A to Z, and the capitals of
  Latin-1 from 192 to 222 without the multiplication sign 215, are 32 below their small
  letters.
\<close>

definition lower_char :: "char \<Rightarrow> char" where
  "lower_char c =
     (case c of Char b0 b1 b2 b3 b4 b5 b6 b7 \<Rightarrow>
        let n = (of_char c :: nat) in
        if (65 \<le> n \<and> n \<le> 90) \<or> (192 \<le> n \<and> n \<le> 222 \<and> n \<noteq> 215)
        then Char b0 b1 b2 b3 b4 True b6 b7 else c)"

definition lower :: "string \<Rightarrow> string" where
  "lower s = map lower_char s"

text \<open>
  The characters that \<open>str.split()\<close> and \<open>str.strip()\<close> take for white space: tab to
  carriage return, the four separators 28 to 31, the space, and of Latin-1 the next-line
  control 133 and the no-break space 160.
\<close>

definition is_space :: "char \<Rightarrow> bool" where
  "is_space c =
     (let n = (of_char c :: nat)
      in (9 \<le> n \<and> n \<le> 13) \<or> (28 \<le> n \<and> n \<le> 32) \<or> n = 133 \<or> n = 160)"

text \<open>\<open>str.strip()\<close> and \<open>str.split()\<close> without arguments, \<open>sep.join\<close>.\<close>

definition strip :: "string \<Rightarrow> string" where
  "strip s = rev (dropWhile is_space (rev (dropWhile is_space s)))"

fun words_from :: "string \<Rightarrow> string \<Rightarrow> string list" where
  "words_from cur [] = (if cur = [] then [] else [cur])"
| "words_from cur (c # cs) =
     (if is_space c then (if cur = [] then words_from [] cs else cur # words_from [] cs)
      else words_from (cur @ [c]) cs)"

definition py_split :: "string \<Rightarrow> string list" where
  "py_split s = words_from [] s"

fun join :: "string \<Rightarrow> string list \<Rightarrow> string" where
  "join sep [] = []"
| "join sep [w] = w"
| "join sep (w # ws) = w @ sep @ join sep ws"

text \<open>\<open>s.startswith(p)\<close> and \<open>sub in s\<close> for strings.\<close>

fun starts_with :: "string \<Rightarrow> string \<Rightarrow> bool" where
  "starts_with s [] = True"
| "starts_with [] (p # ps) = False"
| "starts_with (c # cs) (p # ps) = (c = p \<and> starts_with cs ps)"

fun contains :: "string \<Rightarrow> string \<Rightarrow> bool" where
  "contains [] sub = (sub = [])"
| "contains (c # cs) sub = (starts_with (c # cs) sub \<or> contains cs sub)"

text \<open>\<open>str(n)\<close> for an \<open>int\<close>, as an f-string renders it.\<close>

definition digit_char :: "nat \<Rightarrow> char" where
  "digit_char n = ''0123456789'' ! n"

fun show_nat :: "nat \<Rightarrow> string" where
  "show_nat n = (if n < 10 then [digit_char n] else show_nat (n div 10) @ [digit_char (n mod 10)])"

definition show_int :: "int \<Rightarrow> string" where
  "show_int i = (if i < 0 then CHR ''-'' # show_nat (nat (- i)) else show_nat (nat i))"

text \<open>
  \<open>str(x)\<close> as an f-string renders a value that is a string or \<open>None\<close>, and the truth
  value of such a value: neither \<open>None\<close> nor empty.
\<close>

fun py_str :: "string option \<Rightarrow> string" where
  "py_str None = ''None''"
| "py_str (Some s) = s"

fun truthy :: "string option \<Rightarrow> bool" where
  "truthy None = False"
| "truthy (Some s) = (s \<noteq> [])"

subsection \<open>Clock arithmetic\<close>

text \<open>\<open>int(x)\<close> for a difference of clock readings: truncation towards zero.\<close>

definition py_int :: "real \<Rightarrow> int" where
  "py_int x = (if 0 \<le> x then \<lfloor>x\<rfloor> else \<lceil>x\<rceil>)"

subsection \<open>Floats\<close>

text \<open>
  The number of binary digits of a natural number, and with it the exponent of a positive
  number: the integer \<open>e\<close> with \<open>2 ^ e \<le> x < 2 ^ (e + 1)\<close>.
\<close>

fun bit_length :: "nat \<Rightarrow> nat" where
  "bit_length n = (if n = 0 then 0 else Suc (bit_length (n div 2)))"

declare bit_length.simps [simp del]

definition ilog2 :: "real \<Rightarrow> int" where
  "ilog2 x =
     (if 1 \<le> x then int (bit_length (nat \<lfloor>x\<rfloor>)) - 1
      else - int (bit_length (nat (\<lceil>1 / x\<rceil> - 1))))"

definition pow2 :: "int \<Rightarrow> real" where
  "pow2 e = (if 0 \<le> e then 2 ^ nat e else 1 / 2 ^ nat (- e))"

text \<open>The integer nearest to a number, a tie going to the even one.\<close>

definition round_half_even :: "real \<Rightarrow> int" where
  "round_half_even y =
     (let f = \<lfloor>y\<rfloor>; r = y - of_int f
      in if r < 1 / 2 then f else if r > 1 / 2 then f + 1 else if even f then f else f + 1)"

text \<open>
  The binary64 number nearest to a real number, before the range is looked at: 53
  significant binary digits, and below \<open>2 ^ (- 1022)\<close> the fixed spacing of the subnormal
  numbers.
\<close>

definition double :: "real \<Rightarrow> real" where
  "double x =
     (if x = 0 then 0
      else let u = pow2 (max (ilog2 \<bar>x\<bar>) (- 1022) - 52)
           in of_int (round_half_even (x / u)) * u)"

datatype pyfloat = Fin real | PInf | NInf | NaN

text \<open>The float that a real number rounds to: beyond the largest double it is infinite.\<close>

definition fl :: "real \<Rightarrow> pyfloat" where
  "fl x =
     (let r = double x
      in if 2 ^ 1024 \<le> r then PInf else if r \<le> - (2 ^ 1024) then NInf else Fin r)"

text \<open>\<open>float(x)\<close> for a number: the float that the number denotes.\<close>

fun py_float :: "pyfloat \<Rightarrow> pyfloat" where
  "py_float (Fin x) = fl x"
| "py_float PInf = PInf"
| "py_float NInf = NInf"
| "py_float NaN = NaN"

fun fneg :: "pyfloat \<Rightarrow> pyfloat" where
  "fneg (Fin x) = Fin (- x)"
| "fneg PInf = NInf"
| "fneg NInf = PInf"
| "fneg NaN = NaN"

text \<open>Sum, product and order of two floats as IEEE 754 has them.\<close>

fun add_floats :: "pyfloat \<Rightarrow> pyfloat \<Rightarrow> pyfloat" where
  "add_floats (Fin a) (Fin b) = fl (a + b)"
| "add_floats (Fin a) PInf = PInf"
| "add_floats (Fin a) NInf = NInf"
| "add_floats (Fin a) NaN = NaN"
| "add_floats PInf (Fin b) = PInf"
| "add_floats PInf PInf = PInf"
| "add_floats PInf NInf = NaN"
| "add_floats PInf NaN = NaN"
| "add_floats NInf (Fin b) = NInf"
| "add_floats NInf PInf = NaN"
| "add_floats NInf NInf = NInf"
| "add_floats NInf NaN = NaN"
| "add_floats NaN y = NaN"

fun mul_floats :: "pyfloat \<Rightarrow> pyfloat \<Rightarrow> pyfloat" where
  "mul_floats (Fin a) (Fin b) = fl (a * b)"
| "mul_floats (Fin a) PInf = (if a = 0 then NaN else if 0 < a then PInf else NInf)"
| "mul_floats (Fin a) NInf = (if a = 0 then NaN else if 0 < a then NInf else PInf)"
| "mul_floats (Fin a) NaN = NaN"
| "mul_floats PInf (Fin b) = (if b = 0 then NaN else if 0 < b then PInf else NInf)"
| "mul_floats PInf PInf = PInf"
| "mul_floats PInf NInf = NInf"
| "mul_floats PInf NaN = NaN"
| "mul_floats NInf (Fin b) = (if b = 0 then NaN else if 0 < b then NInf else PInf)"
| "mul_floats NInf PInf = NInf"
| "mul_floats NInf NInf = PInf"
| "mul_floats NInf NaN = NaN"
| "mul_floats NaN y = NaN"

fun less_floats :: "pyfloat \<Rightarrow> pyfloat \<Rightarrow> bool" where
  "less_floats (Fin a) (Fin b) = (a < b)"
| "less_floats (Fin a) PInf = True"
| "less_floats (Fin a) NInf = False"
| "less_floats (Fin a) NaN = False"
| "less_floats PInf y = False"
| "less_floats NInf (Fin b) = True"
| "less_floats NInf PInf = True"
| "less_floats NInf NInf = False"
| "less_floats NInf NaN = False"
| "less_floats NaN y = False"

text \<open>
  The operators of the source on two numbers: \<open>x + y\<close>, \<open>x - y\<close>, \<open>x * y\<close>, \<open>x < y\<close>; the
  source's \<open>x > y\<close> is \<open>flt y x\<close>.
\<close>

definition fadd :: "pyfloat \<Rightarrow> pyfloat \<Rightarrow> pyfloat" where
  "fadd x y = add_floats (py_float x) (py_float y)"

definition fsub :: "pyfloat \<Rightarrow> pyfloat \<Rightarrow> pyfloat" where
  "fsub x y = add_floats (py_float x) (fneg (py_float y))"

definition fmul :: "pyfloat \<Rightarrow> pyfloat \<Rightarrow> pyfloat" where
  "fmul x y = mul_floats (py_float x) (py_float y)"

definition flt :: "pyfloat \<Rightarrow> pyfloat \<Rightarrow> bool" where
  "flt x y = less_floats (py_float x) (py_float y)"

text \<open>
  \<open>int(x)\<close> for a float: truncation towards zero; an infinity raises \<open>OverflowError\<close>, a
  NaN \<open>ValueError\<close>.
\<close>

fun int_of_float :: "pyfloat \<Rightarrow> exn + int" where
  "int_of_float (Fin x) = Inr (py_int (double x))"
| "int_of_float PInf = Inl OverflowError"
| "int_of_float NInf = Inl OverflowError"
| "int_of_float NaN = Inl ValueError"

text \<open>
  The format \<open>{x:.1f}\<close>: the decimal with one digit after the point that is nearest to the
  double, a tie going to the even digit.
\<close>

fun format_1f :: "pyfloat \<Rightarrow> string" where
  "format_1f (Fin x) =
     (let t = round_half_even (\<bar>double x\<bar> * 10)
      in (if x < 0 then ''-'' else []) @ show_int (t div 10) @ ''.'' @ show_int (t mod 10))"
| "format_1f PInf = ''inf''"
| "format_1f NInf = ''-inf''"
| "format_1f NaN = ''nan''"

subsection \<open>Dictionaries\<close>

text \<open>A dictionary in insertion order, with \<open>d.get(k)\<close> and \<open>d[k] = v\<close>.\<close>

fun dict_get :: "('k \<times> 'v) list \<Rightarrow> 'k \<Rightarrow> 'v option" where
  "dict_get [] k = None"
| "dict_get ((k', v) # kvs) k = (if k' = k then Some v else dict_get kvs k)"

fun dict_set :: "'k \<Rightarrow> 'v \<Rightarrow> ('k \<times> 'v) list \<Rightarrow> ('k \<times> 'v) list" where
  "dict_set k v [] = [(k, v)]"
| "dict_set k v ((k', v') # kvs) =
     (if k' = k then (k', v) # kvs else (k', v') # dict_set k v kvs)"

text \<open>
  A field of a JSON object of the gateway, with \<open>d.get(k, default)\<close> and \<open>d.get(k)\<close>: the
  result \<open>None\<close> is Python's \<open>None\<close>.
\<close>

datatype 'a field = Absent | Null | Val 'a

fun dget :: "'a field \<Rightarrow> 'a \<Rightarrow> 'a option" where
  "dget Absent d = Some d"
| "dget Null d = None"
| "dget (Val v) d = Some v"

fun dget0 :: "'a field \<Rightarrow> 'a option" where
  "dget0 Absent = None"
| "dget0 Null = None"
| "dget0 (Val v) = Some v"

section \<open>Object stability tracker (models.py, services/tracking.py)\<close>

record TrackedObject =
  name :: string
  category :: "string option"
  confidence :: pyfloat
  raw_distance :: pyfloat
  raw_direction :: "string option"
  distance :: pyfloat
  direction :: "string option"
  last_seen :: real
  frames_detected :: int
  is_stable :: bool

text \<open>\<open>TrackedObject.update\<close>; \<open>t\<close> is the reading of the clock the method takes.\<close>

definition update ::
  "real \<Rightarrow> pyfloat \<Rightarrow> string option \<Rightarrow> pyfloat \<Rightarrow> TrackedObject \<Rightarrow> TrackedObject" where
  "update t new_dist new_dir new_conf obj =
     (let obj1 = obj\<lparr>last_seen := t,
                     frames_detected := frames_detected obj + 1,
                     raw_distance := new_dist,
                     raw_direction := new_dir,
                     confidence := new_conf,
                     distance := fadd (fmul (distance obj) (Fin 0.7)) (fmul new_dist (Fin 0.3)),
                     direction := new_dir\<rparr>
      in if frames_detected obj1 \<ge> 2 then obj1\<lparr>is_stable := True\<rparr> else obj1)"

record VisualTracker =
  tracked_objects :: "(string \<times> TrackedObject) list"
  confidence_threshold :: real
  persistence_frames :: int
  timeout :: real

text \<open>\<open>VisualTracker.__init__\<close> with its default arguments.\<close>

definition VisualTracker_init :: VisualTracker where
  "VisualTracker_init =
     \<lparr>tracked_objects = [], confidence_threshold = 75, persistence_frames = 2, timeout = 2.0\<rparr>"

text \<open>One element of the \<open>detections\<close> list: a JSON object of the gateway.\<close>

record detection =
  d_name :: "string field"
  d_confidence_score :: "pyfloat field"
  d_distance :: "pyfloat field"
  d_direction :: "string field"
  d_category :: "string field"

text \<open>The entry that \<open>process_detections\<close> builds for a key it does not hold yet.\<close>

definition new_tracked ::
  "real \<Rightarrow> string \<Rightarrow> string option \<Rightarrow> pyfloat \<Rightarrow> pyfloat \<Rightarrow> string option \<Rightarrow> TrackedObject" where
  "new_tracked now nm cat conf dst dir =
     \<lparr>name = nm, category = cat, confidence = conf, raw_distance = dst,
      raw_direction = dir, distance = dst, direction = dir, last_seen = now,
      frames_detected = 1, is_stable = False\<rparr>"

text \<open>
  The body of the loop \<open>for det in detections\<close>. \<open>now\<close> is the reading taken at the top
  of \<open>process_detections\<close>, \<open>t\<close> the reading \<open>TrackedObject.update\<close> takes if it is called
  for this detection. A name that is \<open>None\<close> or empty skips the detection before the
  confidence is compared. Comparing a confidence that is \<open>None\<close> with the threshold raises
  \<open>TypeError\<close>, and so does \<open>float(None)\<close> for the distance; the tracker is then as it was
  before this detection.
\<close>

definition ingest_one :: "real \<Rightarrow> real \<Rightarrow> detection \<Rightarrow> VisualTracker \<Rightarrow> exn + VisualTracker" where
  "ingest_one now t det trk =
     (case dget0 (d_name det) of
        None \<Rightarrow> Inr trk
      | Some nm \<Rightarrow>
          (if nm = [] then Inr trk
           else
             (case dget (d_confidence_score det) (Fin 100) of
                None \<Rightarrow> Inl TypeError
              | Some conf \<Rightarrow>
                  (if flt conf (Fin (confidence_threshold trk)) then Inr trk
                   else
                     (case dget (d_distance det) (Fin 0.0) of
                        None \<Rightarrow> Inl TypeError
                      | Some x \<Rightarrow>
                          (let key = lower nm;
                               dst = py_float x;
                               dir = dget (d_direction det) ''ahead'';
                               cat = dget (d_category det) ''unknown''
                           in (case dict_get (tracked_objects trk) key of
                                 Some obj \<Rightarrow>
                                   Inr (trk\<lparr>tracked_objects :=
                                          dict_set key (update t dst dir conf obj)
                                            (tracked_objects trk)\<rparr>)
                               | None \<Rightarrow>
                                   Inr (trk\<lparr>tracked_objects :=
                                          dict_set key (new_tracked now nm cat conf dst dir)
                                            (tracked_objects trk)\<rparr>))))))))"

text \<open>
  The loop itself; \<open>clk i\<close> is the clock reading of \<open>update\<close> at the \<open>i\<close>-th detection
  still to be handled. An exception ends the loop and leaves the entries that the
  detections before it have created and updated.
\<close>

fun ingest_loop ::
  "real \<Rightarrow> (nat \<Rightarrow> real) \<Rightarrow> detection list \<Rightarrow> VisualTracker \<Rightarrow> exn option \<times> VisualTracker" where
  "ingest_loop now clk [] trk = (None, trk)"
| "ingest_loop now clk (det # dets) trk =
     (case ingest_one now (clk 0) det trk of
        Inl e \<Rightarrow> (Some e, trk)
      | Inr trk1 \<Rightarrow> ingest_loop now (\<lambda>i. clk (Suc i)) dets trk1)"

definition prune_expired :: "real \<Rightarrow> VisualTracker \<Rightarrow> VisualTracker" where
  "prune_expired now trk =
     trk\<lparr>tracked_objects :=
           filter (\<lambda>kv. now - last_seen (snd kv) < timeout trk) (tracked_objects trk)\<rparr>"

text \<open>
  \<open>VisualTracker.process_detections\<close>: the stable objects, or the exception that the loop
  raises, and the tracker it leaves.
\<close>

definition process_detections ::
  "real \<Rightarrow> (nat \<Rightarrow> real) \<Rightarrow> detection list \<Rightarrow> VisualTracker
     \<Rightarrow> (exn + TrackedObject list) \<times> VisualTracker" where
  "process_detections now clk detections trk =
     (case ingest_loop now clk detections (prune_expired now trk) of
        (Some e, trk1) \<Rightarrow> (Inl e, trk1)
      | (None, trk1) \<Rightarrow> (Inr (filter is_stable (map snd (tracked_objects trk1))), trk1))"

section \<open>Speech gate (utils.py, config.py, services/speech.py)\<close>

definition ignore_words :: "string list" where
  "ignore_words =
     [''grey'', ''gray'', ''white'', ''black'', ''brown'', ''red'', ''blue'', ''green'',
      ''open'', ''closed'', ''small'', ''large'', ''big'', ''little'', ''tiny'', ''huge'',
      ''old'', ''new'', ''patterned'', ''textured'', ''wooden'', ''metal'']"

definition extract_semantic_key :: "string \<Rightarrow> string \<Rightarrow> string \<Rightarrow> string" where
  "extract_semantic_key subject dir cat =
     (let subject_normalized = strip (lower subject);
          filtered_words = filter (\<lambda>w. w \<notin> set ignore_words) (py_split subject_normalized);
          core_subject = (if filtered_words \<noteq> [] then join '' '' filtered_words
                          else subject_normalized)
      in core_subject @ ''|'' @ dir @ ''|'' @ cat)"

definition CRITICAL_REPEAT_INTERVAL :: real where "CRITICAL_REPEAT_INTERVAL = 1.0"
definition HIGH_REPEAT_INTERVAL :: real where "HIGH_REPEAT_INTERVAL = 2.0"
definition MEDIUM_REPEAT_INTERVAL :: real where "MEDIUM_REPEAT_INTERVAL = 4.0"
definition LOW_REPEAT_INTERVAL :: real where "LOW_REPEAT_INTERVAL = 8.0"

record SpeechManager =
  current_speech_end_time :: real
  last_semantic_key :: string
  last_speech_time :: real
  last_distance :: pyfloat
  last_priority :: string
  announced_subjects :: "(string \<times> real) list"
  recent_speeches :: "string list"

definition SpeechManager_init :: SpeechManager where
  "SpeechManager_init =
     \<lparr>current_speech_end_time = 0.0, last_semantic_key = [], last_speech_time = 0.0,
      last_distance = Fin 999.0, last_priority = ''low'', announced_subjects = [],
      recent_speeches = []\<rparr>"

definition estimate_speech_duration :: "string \<Rightarrow> real" where
  "estimate_speech_duration text = real (length (py_split text)) / 2.5 + 0.5"

definition is_speaking :: "real \<Rightarrow> SpeechManager \<Rightarrow> bool" where
  "is_speaking t sm = (t < current_speech_end_time sm)"

text \<open>The dictionary \<open>priority_map\<close> with \<open>.get(priority, 0)\<close>.\<close>

definition priority_map :: "string \<Rightarrow> int" where
  "priority_map p =
     (if p = ''critical'' then 4 else if p = ''high'' then 3 else if p = ''medium'' then 2
      else if p = ''low'' then 1 else 0)"

text \<open>The dictionary \<open>cooldowns\<close> with \<open>.get(priority, MEDIUM_REPEAT_INTERVAL)\<close>.\<close>

definition cooldowns :: "string \<Rightarrow> real" where
  "cooldowns p =
     (if p = ''critical'' then CRITICAL_REPEAT_INTERVAL
      else if p = ''high'' then HIGH_REPEAT_INTERVAL
      else if p = ''medium'' then MEDIUM_REPEAT_INTERVAL
      else if p = ''low'' then LOW_REPEAT_INTERVAL
      else MEDIUM_REPEAT_INTERVAL)"

text \<open>
  The local \<open>distance_change\<close> of \<open>_check_same_context\<close>: the float difference
  \<open>self.last_distance - distance\<close>.
\<close>

definition distance_change :: "SpeechManager \<Rightarrow> pyfloat \<Rightarrow> pyfloat" where
  "distance_change sm dst = fsub (last_distance sm) dst"

definition check_same_context :: "SpeechManager \<Rightarrow> string \<Rightarrow> real \<Rightarrow> pyfloat \<Rightarrow> bool \<times> string" where
  "check_same_context sm priority now dst =
     (let time_since_last = now - last_speech_time sm;
          min_interval = cooldowns priority
      in if flt (Fin 0.5) (distance_change sm dst) then (True, ''distance_closed'')
         else if time_since_last < min_interval
         then (False, ''same_context_cooldown ('' @
                       show_int (py_int (min_interval - time_since_last)) @ ''s left)'')
         else (True, ''interval_passed''))"

definition check_new_context :: "SpeechManager \<Rightarrow> string \<Rightarrow> real \<Rightarrow> bool \<times> string" where
  "check_new_context sm subject now =
     (let time_since_any = now - last_speech_time sm in
      if time_since_any < 3.0 then (False, ''global_cooldown'')
      else
        let last_announce =
              (case dict_get (announced_subjects sm) (lower subject) of None \<Rightarrow> 0 | Some t \<Rightarrow> t)
        in if now - last_announce < 10.0 then (False, ''subject_recently_announced'')
           else (True, ''new_context''))"

text \<open>
  \<open>SpeechManager.should_speak\<close>. It reads the clock twice: \<open>now\<close> at its top and \<open>now'\<close>
  inside \<open>is_speaking\<close>.
\<close>

definition should_speak ::
  "real \<Rightarrow> real \<Rightarrow> SpeechManager \<Rightarrow> string \<Rightarrow> string \<Rightarrow> string \<Rightarrow> string \<Rightarrow> pyfloat \<Rightarrow> string
     \<Rightarrow> bool \<times> string" where
  "should_speak now now' sm priority subject dir cat dst speech_text =
     (let semantic_key = extract_semantic_key subject dir cat;
          current_prio_val = priority_map priority;
          last_prio_val = priority_map (last_priority sm)
      in if priority = ''critical'' then (True, ''critical_alert'')
         else if is_speaking now' sm
         then (if current_prio_val > last_prio_val
                  \<and> flt dst (fsub (last_distance sm) (Fin 0.3))
               then (True, ''priority_escalation'')
               else (False, ''speech_in_progress''))
         else if semantic_key = last_semantic_key sm
         then check_same_context sm priority now dst
         else check_new_context sm subject now)"

definition record_speech ::
  "real \<Rightarrow> SpeechManager \<Rightarrow> string \<Rightarrow> string \<Rightarrow> string \<Rightarrow> string \<Rightarrow> string \<Rightarrow> pyfloat
     \<Rightarrow> SpeechManager" where
  "record_speech now sm speech_text priority subject dir cat dst =
     (let duration = estimate_speech_duration speech_text;
          speeches = recent_speeches sm @ [speech_text];
          announced = dict_set (lower subject) now (announced_subjects sm)
      in sm\<lparr>current_speech_end_time := now + duration,
            last_semantic_key := extract_semantic_key subject dir cat,
            last_speech_time := now,
            last_distance := dst,
            last_priority := priority,
            recent_speeches := (if length speeches > 5 then tl speeches else speeches),
            announced_subjects := filter (\<lambda>kv. now - snd kv < 60.0) announced\<rparr>)"

section \<open>Persistent memory (services/memory.py)\<close>

record history_entry =
  h_object :: string
  h_location :: "string option"
  h_scene :: "string option"
  h_timestamp :: real

record location_entry =
  l_description :: string
  l_timestamp :: real

text \<open>
  The dictionary \<open>self.data\<close>: either key can be missing in a file that was loaded.
\<close>

record memory_data =
  locations :: "(string \<times> location_entry) list option"
  history :: "history_entry list option"

text \<open>
  The store: the dictionary in memory and the content of the JSON file (\<open>None\<close> while
  the file does not exist).
\<close>

record PersistentMemory =
  data :: memory_data
  on_disk :: "memory_data option"

text \<open>\<open>_load\<close> when the file does not exist or cannot be read.\<close>

definition PersistentMemory_init :: PersistentMemory where
  "PersistentMemory_init = \<lparr>data = \<lparr>locations = Some [], history = Some []\<rparr>, on_disk = None\<rparr>"

text \<open>
  \<open>save\<close>: \<open>io_ok\<close> says whether opening and writing the file succeeds; an \<open>OSError\<close> is
  logged and leaves the file as it was.
\<close>

definition save :: "bool \<Rightarrow> PersistentMemory \<Rightarrow> PersistentMemory" where
  "save io_ok mem = (if io_ok then mem\<lparr>on_disk := Some (data mem)\<rparr> else mem)"

definition add_location :: "real \<Rightarrow> bool \<Rightarrow> string \<Rightarrow> string \<Rightarrow> PersistentMemory \<Rightarrow> PersistentMemory" where
  "add_location now io_ok nm description mem =
     (let locs = (case locations (data mem) of None \<Rightarrow> [] | Some l \<Rightarrow> l);
          locs' = dict_set nm \<lparr>l_description = description, l_timestamp = now\<rparr> locs
      in save io_ok (mem\<lparr>data := (data mem)\<lparr>locations := Some locs'\<rparr>\<rparr>))"

text \<open>
  \<open>log_object\<close>. It reads the clock twice: \<open>t_entry\<close> stamps the new entry, \<open>t_check\<close> is
  compared with the last entry of the history.
\<close>

definition log_object ::
  "real \<Rightarrow> real \<Rightarrow> bool \<Rightarrow> string \<Rightarrow> string option \<Rightarrow> string option \<Rightarrow> PersistentMemory
     \<Rightarrow> PersistentMemory" where
  "log_object t_entry t_check io_ok object_name location_tag scene_desc mem =
     (if object_name = [] \<or> lower object_name \<in> set [''none'', ''unknown'', ''null''] then mem
      else
        let entry = \<lparr>h_object = object_name, h_location = location_tag,
                     h_scene = scene_desc, h_timestamp = t_entry\<rparr>;
            hist = (case history (data mem) of None \<Rightarrow> [] | Some h \<Rightarrow> h);
            mem1 = mem\<lparr>data := (data mem)\<lparr>history := Some hist\<rparr>\<rparr>
        in if hist \<noteq> [] \<and> h_object (last hist) = object_name
              \<and> t_check - h_timestamp (last hist) < 10
           then mem1
           else
             let hist1 = hist @ [entry];
                 hist2 = (if length hist1 > 1000 then drop (length hist1 - 1000) hist1
                          else hist1)
             in save io_ok (mem1\<lparr>data := (data mem1)\<lparr>history := Some hist2\<rparr>\<rparr>))"

text \<open>The history a reader gets: \<open>self.data.get("history", [])\<close>.\<close>

definition history_of :: "PersistentMemory \<Rightarrow> history_entry list" where
  "history_of mem = (case history (data mem) of None \<Rightarrow> [] | Some h \<Rightarrow> h)"

text \<open>
  A sequence of calls of \<open>log_object\<close> on one store: each call with its arguments, its two
  clock readings and the outcome of writing the file.
\<close>

record log_call =
  c_t_entry :: real
  c_t_check :: real
  c_io_ok :: bool
  c_object :: string
  c_location :: "string option"
  c_scene :: "string option"

fun log_calls :: "log_call list \<Rightarrow> PersistentMemory \<Rightarrow> PersistentMemory" where
  "log_calls [] mem = mem"
| "log_calls (c # cs) mem =
     log_calls cs (log_object (c_t_entry c) (c_t_check c) (c_io_ok c) (c_object c)
                     (c_location c) (c_scene c) mem)"

section \<open>Task state (models.py)\<close>

text \<open>
  A plan is the JSON list the planner returns; its elements follow the schema of the
  planner prompt, which \<open>models.py\<close> declares as \<open>TaskStep\<close>. \<open>current_step_index\<close> is a
  natural number: it starts at 0, is incremented, and is decremented only when positive.
\<close>

record TaskStep =
  step_id :: int
  instruction :: string
  items :: "string list"
  completed :: bool

record TaskState =
  is_active :: bool
  plan :: "TaskStep list"
  current_step_index :: nat
  waiting_for_user :: bool

text \<open>\<open>TaskState()\<close> with the defaults of the dataclass.\<close>

definition TaskState_init :: TaskState where
  "TaskState_init =
     \<lparr>is_active = False, plan = [], current_step_index = 0, waiting_for_user = False\<rparr>"

text \<open>The property \<open>TaskState.current_step\<close>.\<close>

definition current_step :: "TaskState \<Rightarrow> TaskStep option" where
  "current_step ts =
     (if is_active ts \<and> plan ts \<noteq> [] \<and> current_step_index ts < length (plan ts)
      then Some (plan ts ! current_step_index ts) else None)"

record GlobalTaskState =
  g_is_active :: bool
  g_plan :: "TaskStep list"
  g_current_step_index :: nat
  task_name :: string
  last_updated :: real

definition GlobalTaskState_init :: GlobalTaskState where
  "GlobalTaskState_init =
     \<lparr>g_is_active = False, g_plan = [], g_current_step_index = 0, task_name = [],
      last_updated = 0.0\<rparr>"

definition to_task_state :: "GlobalTaskState \<Rightarrow> TaskState" where
  "to_task_state g =
     \<lparr>is_active = g_is_active g, plan = g_plan g,
      current_step_index = g_current_step_index g, waiting_for_user = False\<rparr>"

text \<open>
  \<open>update_from(task_state, task_name)\<close>; \<open>now\<close> is its reading of the clock. The source
  hands the list object \<open>plan\<close> itself from one state to the other; here the value is
  copied, which is the same wherever the global state is read after an \<open>update_from\<close>.
\<close>

definition update_from :: "real \<Rightarrow> TaskState \<Rightarrow> string \<Rightarrow> GlobalTaskState \<Rightarrow> GlobalTaskState" where
  "update_from now ts nm g =
     g\<lparr>g_is_active := is_active ts,
       g_plan := plan ts,
       g_current_step_index := current_step_index ts,
       task_name := (if nm \<noteq> [] then nm else task_name g),
       last_updated := now\<rparr>"

definition is_valid :: "real \<Rightarrow> GlobalTaskState \<Rightarrow> bool" where
  "is_valid now g = (g_is_active g \<and> now - last_updated g < 300)"

section \<open>Session state and the connection (models.py, routes/websocket.py)\<close>

text \<open>
  An entry of the short-term memory. Direction and category are stored as the gateway
  gave them, \<open>None\<close> for a \<open>null\<close>.
\<close>

record MemoryEntry =
  m_timestamp :: real
  m_direction :: "string option"
  m_distance :: pyfloat
  m_category :: "string option"

text \<open>The dictionary \<open>frame_payload\<close> that the receive loop builds; \<open>bytes\<close> are a string.\<close>

record frame =
  f_image :: string
  f_heading :: int
  f_task :: string

text \<open>
  \<open>SessionState\<close>. The tracker and the speech manager are built at their first use with
  the objects \<open>VisualTracker()\<close> and \<open>SpeechManager()\<close>; the record holds them from the
  start. The fields that only \<open>add_speech\<close> writes and nothing reads are left out.
\<close>

record SessionState =
  social_context :: "string list"
  frames_received :: int
  frames_processed :: int
  frames_skipped :: int
  current_goal :: "string option"
  micro_target :: "string option"
  mode :: string
  object_memory :: "(string \<times> MemoryEntry) list"
  task_state :: TaskState
  latest_frame :: "frame option"
  is_processing :: bool
  tracker :: VisualTracker
  speech_manager :: SpeechManager

definition SessionState_init :: SessionState where
  "SessionState_init =
     \<lparr>social_context = [], frames_received = 0, frames_processed = 0, frames_skipped = 0,
      current_goal = None, micro_target = None, mode = ''nav'', object_memory = [],
      task_state = TaskState_init, latest_frame = None, is_processing = False,
      tracker = VisualTracker_init, speech_manager = SpeechManager_init\<rparr>"

datatype log_entry = LogWarning string | LogError string "exn option"

text \<open>
  The JSON messages handed to \<open>safe_send_json\<close>, which never raises. The timing field
  \<open>ms\<close> and the fields \<open>social_cues\<close> and \<open>environment\<close>, copied from the gateway, are left
  out.
\<close>

datatype task_update_extra = Plain | Restored | Feedback "string option"

datatype ui_objects =
    StableObjects "(string \<times> pyfloat \<times> string option) list"
  | RawObjects "detection list"

datatype message =
    Speak string
  | TaskUpdate "TaskStep list" nat task_update_extra
  | InquiryResult string "string option" string bool
  | MicroResult "pyfloat option" "pyfloat option" "string option" "string option"
  | Result string pyfloat "string option" "bool option" "string option" ui_objects
      "string option" int int

text \<open>
  The handler that the consumer has called, with the local variable that the handler
  reads from the session before its first \<open>await\<close> and uses after it: the target of
  \<open>process_micro_frame\<close>, the index \<open>idx\<close> of \<open>process_task_frame\<close>. \<open>None\<close> in its place
  marks a call that has returned before the \<open>try\<close> block of the handler.
\<close>

datatype handler = Micro "string option" | Task "nat option" | Nav

text \<open>
  The state of the consumer task \<open>_frame_processor_loop\<close>: blocked on \<open>frame_event.wait()\<close>,
  inside the handler it selected for the frame it claimed, or finished.
\<close>

datatype consumer_state = Waiting | Handling handler frame | Stopped

text \<open>
  Everything one connection touches: its session, the event, the consumer task, the two
  module-level objects \<open>global_task_state\<close> and \<open>memory_store\<close>, the messages sent and the
  log.
\<close>

record world =
  session :: SessionState
  frame_event :: bool
  consumer :: consumer_state
  global_task_state :: GlobalTaskState
  memory_store :: PersistentMemory
  outbox :: "message list"
  log :: "log_entry list"

definition send :: "message \<Rightarrow> world \<Rightarrow> world" where
  "send m w = w\<lparr>outbox := outbox w @ [m]\<rparr>"

definition logging :: "log_entry \<Rightarrow> world \<Rightarrow> world" where
  "logging e w = w\<lparr>log := log w @ [e]\<rparr>"

definition set_task_state :: "TaskState \<Rightarrow> world \<Rightarrow> world" where
  "set_task_state ts w = w\<lparr>session := (session w)\<lparr>task_state := ts\<rparr>\<rparr>"

definition set_mode :: "string \<Rightarrow> world \<Rightarrow> world" where
  "set_mode m w = w\<lparr>session := (session w)\<lparr>mode := m\<rparr>\<rparr>"

text \<open>
  The start of \<open>websocket_endpoint\<close>, up to the creation of the consumer task: a new
  session, and the restoration of the task when the global task state is valid at the
  clock reading \<open>now\<close>.
\<close>

definition connect :: "real \<Rightarrow> GlobalTaskState \<Rightarrow> PersistentMemory \<Rightarrow> world" where
  "connect now g mem =
     (let w0 = \<lparr>session = SessionState_init, frame_event = False, consumer = Waiting,
                global_task_state = g, memory_store = mem, outbox = [], log = []\<rparr>
      in if is_valid now g
         then
           let w1 = set_mode ''task'' (set_task_state (to_task_state g) w0);
               ts = task_state (session w1);
               w2 = send (TaskUpdate (plan ts) (current_step_index ts) Restored) w1
           in (case current_step ts of
                 Some step \<Rightarrow> send (Speak (''Resuming. Step: '' @ instruction step)) w2
               | None \<Rightarrow> w2)
         else w0)"

section \<open>Voice inquiries (services/processor.py)\<close>

text \<open>
  What a call of the perception gateway followed by \<open>_parse_json_sync\<close> can come to: the
  call raises, the response has no text, the text is not JSON, the JSON value is not an
  object (so that \<open>.get\<close> raises \<open>AttributeError\<close>), or it is an object of the expected
  schema.
\<close>

datatype 'a reply = CallRaises exn | EmptyText | ParseRaises exn | NotAnObject | Json 'a

text \<open>The intent-classification object; \<open>None\<close> is a missing key.\<close>

record inquiry_result =
  i_intent :: "string option"
  i_speech :: "string option"
  i_thinking :: "string option"
  i_target :: "string option"
  i_search_target :: "string option"
  i_goal :: "string option"
  i_tag_name :: "string option"
  i_scene_description :: "string option"
  i_task_name :: "string option"

text \<open>\<open>d.get(k, default)\<close> for a key of the intent object.\<close>

fun get_or :: "'a option \<Rightarrow> 'a \<Rightarrow> 'a" where
  "get_or None d = d"
| "get_or (Some x) d = x"

text \<open>
  The planner's answer after parsing: an exception on the way, a JSON value that is not
  a list, or a list of steps.
\<close>

datatype plan_data = NotAList | PlanList "TaskStep list"

datatype 'a ext = Raises exn | Returns 'a

text \<open>
  What one call of \<open>_handle_intent\<close> takes from outside: the planner's answer, the reading
  of the clock, and whether the memory file can be written.
\<close>

record intent_env =
  ie_plan_reply :: "plan_data ext"
  ie_now :: real
  ie_io_ok :: bool

definition generate_task_plan :: "intent_env \<Rightarrow> string option \<Rightarrow> world \<Rightarrow> string \<times> world" where
  "generate_task_plan env tname w =
     (if \<not> truthy tname then (''I didn't hear a task name.'', w)
      else
        case ie_plan_reply env of
          Raises e \<Rightarrow>
            (''Sorry, I failed to create a plan.'',
             logging (LogError ''Task Planning Failed'' (Some e)) w)
        | Returns NotAList \<Rightarrow> (''I couldn't generate a valid plan.'', w)
        | Returns (PlanList []) \<Rightarrow> (''I couldn't generate a valid plan.'', w)
        | Returns (PlanList (p # ps)) \<Rightarrow>
            let ts = \<lparr>is_active = True, plan = p # ps, current_step_index = 0,
                      waiting_for_user = False\<rparr>;
                w1 = set_mode ''task'' (set_task_state ts w);
                w2 = w1\<lparr>global_task_state :=
                          update_from (ie_now env) ts (get_or tname []) (global_task_state w1)\<rparr>;
                w3 = send (TaskUpdate (p # ps) 0 Plain) w2
            in (''Plan generated for '' @ get_or tname [] @ ''. First step: '' @ instruction p,
                w3))"

text \<open>
  The tail of \<open>_handle_task_control\<close>: synchronise the global state, send the update,
  return the text.
\<close>

definition task_control_finish :: "real \<Rightarrow> string \<Rightarrow> world \<Rightarrow> (exn + string) \<times> world" where
  "task_control_finish now resp_text w =
     (let ts = task_state (session w);
          w1 = w\<lparr>global_task_state := update_from now ts [] (global_task_state w)\<rparr>
      in (Inr resp_text, send (TaskUpdate (plan ts) (current_step_index ts) Plain) w1))"

text \<open>
  \<open>_handle_task_control\<close>. Reading or writing \<open>ts.plan[i]\<close> with \<open>i\<close> beyond the plan raises
  \<open>IndexError\<close>; the world returned with the exception is the one at the raise.
\<close>

definition handle_task_control :: "real \<Rightarrow> string \<Rightarrow> world \<Rightarrow> (exn + string) \<times> world" where
  "handle_task_control now intent w =
     (let ts = task_state (session w); i = current_step_index ts in
      if \<not> is_active ts \<or> plan ts = [] then (Inr ''No active task to control.'', w)
      else if intent = ''task_skip'' \<or> intent = ''task_done'' then
        (if i \<ge> length (plan ts) then (Inl IndexError, w)
         else
           let ts1 = ts\<lparr>plan := (plan ts)[i := (plan ts ! i)\<lparr>completed := True\<rparr>],
                        current_step_index := i + 1\<rparr>
           in if current_step_index ts1 \<ge> length (plan ts1)
              then
                let w1 = set_mode ''nav'' (set_task_state (ts1\<lparr>is_active := False\<rparr>) w);
                    w2 = w1\<lparr>global_task_state := (global_task_state w1)\<lparr>g_is_active := False\<rparr>\<rparr>
                in task_control_finish now ''Task completed.'' w2
              else
                task_control_finish now
                  (''Done. Next: '' @ instruction (plan ts1 ! current_step_index ts1))
                  (set_task_state ts1 w))
      else if intent = ''task_previous'' then
        (if i > 0 then
           let ts1 = ts\<lparr>current_step_index := i - 1\<rparr> in
           if i - 1 \<ge> length (plan ts) then (Inl IndexError, set_task_state ts1 w)
           else
             let ts2 = ts1\<lparr>plan := (plan ts)[i - 1 := (plan ts ! (i - 1))\<lparr>completed := False\<rparr>]\<rparr>
             in task_control_finish now (''Back to: '' @ instruction (plan ts2 ! (i - 1)))
                  (set_task_state ts2 w)
         else task_control_finish now ''Already at start.'' w)
      else if intent = ''task_repeat'' then
        (if i \<ge> length (plan ts) then (Inl IndexError, w)
         else task_control_finish now (''Current step: '' @ instruction (plan ts ! i)) w)
      else if intent = ''task_status'' then
        task_control_finish now
          (''Step '' @ show_int (int i + 1) @ '' of '' @ show_int (int (length (plan ts))) @ ''.'') w
      else task_control_finish now ''Unknown task command.'' w)"

text \<open>\<open>_handle_intent\<close>: the optional text that overrides the spoken answer.\<close>

definition handle_intent ::
  "intent_env \<Rightarrow> string \<Rightarrow> inquiry_result \<Rightarrow> world \<Rightarrow> (exn + string option) \<times> world" where
  "handle_intent env intent result w =
     (if intent = ''micro_nav'' then
        (if truthy (i_target result)
         then (Inr (Some (''Guiding you to the '' @ get_or (i_target result) [] @ ''. Hold steady.'')),
               w\<lparr>session := (session w)\<lparr>mode := ''micro'', micro_target := i_target result\<rparr>\<rparr>)
         else (Inr None, w))
      else if intent = ''search'' then
        (let w1 = set_mode ''nav'' w;
             goal = (if truthy (i_search_target result) then i_search_target result
                     else i_goal result)
         in if truthy goal
            then (Inr (Some (''Okay, searching for '' @ get_or goal [] @ ''.'')),
                  w1\<lparr>session := (session w1)\<lparr>current_goal := goal\<rparr>\<rparr>)
            else (Inr None, w1))
      else if intent = ''stop'' then
        (Inr (Some ''Stopping all tasks and searches.''),
         w\<lparr>session := (session w)\<lparr>mode := ''nav'', current_goal := None, micro_target := None,
                                   task_state := TaskState_init\<rparr>,
           global_task_state := (global_task_state w)\<lparr>g_is_active := False\<rparr>\<rparr>)
      else if intent = ''tag'' then
        (if truthy (i_tag_name result) \<and> truthy (i_scene_description result)
         then (Inr (Some (''Tagged location as '' @ get_or (i_tag_name result) [] @ ''.'')),
               w\<lparr>memory_store :=
                    add_location (ie_now env) (ie_io_ok env) (get_or (i_tag_name result) [])
                      (get_or (i_scene_description result) []) (memory_store w)\<rparr>)
         else (Inr None, w))
      else if intent = ''task'' then
        (case generate_task_plan env (i_task_name result) w of
           (text, w1) \<Rightarrow> (Inr (Some text), w1))
      else if starts_with intent ''task_'' then
        (case handle_task_control (ie_now env) intent w of
           (Inl e, w1) \<Rightarrow> (Inl e, w1)
         | (Inr text, w1) \<Rightarrow> (Inr (Some text), w1))
      else (Inr None, w))"

text \<open>The inbound envelope \<open>{"type": "inquiry", "image": ..., "audio": ...}\<close>.\<close>

record inquiry_data =
  q_image :: "string option"
  q_audio :: "string option"

text \<open>The \<open>except Exception\<close> clause of \<open>process_inquiry\<close>.\<close>

definition inquiry_error :: "exn \<Rightarrow> world \<Rightarrow> world" where
  "inquiry_error e w =
     send (Speak ''Sorry, I had an error processing that.'')
       (logging (LogError ''Inquiry Error'' (Some e)) w)"

text \<open>
  \<open>process_inquiry\<close>. \<open>_handle_intent\<close> is called twice, as in the source: once with its
  result dropped (step 5), once for \<open>handler_speech\<close> (step 6); \<open>env1\<close> and \<open>env2\<close> are what
  the two calls take from outside.
\<close>

definition process_inquiry ::
  "intent_env \<Rightarrow> intent_env \<Rightarrow> inquiry_result reply \<Rightarrow> inquiry_data \<Rightarrow> world \<Rightarrow> world" where
  "process_inquiry env1 env2 rep dat w =
     (if \<not> truthy (q_image dat) \<or> \<not> truthy (q_audio dat) then w
      else
        case rep of
          CallRaises e \<Rightarrow> inquiry_error e w
        | EmptyText \<Rightarrow> w
        | ParseRaises e \<Rightarrow> inquiry_error e w
        | NotAnObject \<Rightarrow> inquiry_error AttributeError w
        | Json result \<Rightarrow>
            let intent = get_or (i_intent result) ''info'';
                speech_text = get_or (i_speech result) ''I didn't catch that.'';
                thinking = get_or (i_thinking result) []
            in (case handle_intent env1 intent result w of
                  (Inl e, w1) \<Rightarrow> inquiry_error e w1
                | (Inr dropped, w1) \<Rightarrow>
                    (case handle_intent env2 intent result w1 of
                       (Inl e, w2) \<Rightarrow> inquiry_error e w2
                     | (Inr handler_speech, w2) \<Rightarrow>
                         let spoken = (if truthy handler_speech then get_or handler_speech []
                                       else speech_text);
                             s2 = session w2
                         in send (Speak spoken)
                              (send (InquiryResult thinking (current_goal s2) (mode s2)
                                       (is_active (task_state s2))) w2))))"

text \<open>
  The branch of the receive loop for an inquiry: \<open>process_inquiry\<close>, then the
  synchronisation of an active task, with its own reading \<open>now\<close> of the clock.
\<close>

definition receive_inquiry ::
  "real \<Rightarrow> intent_env \<Rightarrow> intent_env \<Rightarrow> inquiry_result reply \<Rightarrow> inquiry_data \<Rightarrow> world \<Rightarrow> world" where
  "receive_inquiry now env1 env2 rep dat w =
     (let w1 = process_inquiry env1 env2 rep dat w in
      if is_active (task_state (session w1))
      then w1\<lparr>global_task_state :=
                update_from now (task_state (session w1)) [] (global_task_state w1)\<rparr>
      else w1)"

section \<open>Frame handlers (services/processor.py, utils.py)\<close>

text \<open>
  A handler is a coroutine. It gives way to the receive loop where it awaits a worker
  thread: the decoding of the image, the call of the gateway, the parsing of the reply.
  Each handler is therefore cut in two. Its start runs when the consumer calls it, up to
  the first of these awaits; the rest, from the reply on, runs when the reply is there,
  on the session as the receive loop has left it in between. Handing a message to the
  socket and writing to the console are taken to succeed without giving way.
\<close>

subsection \<open>Text of a distance\<close>

text \<open>\<open>format_distance_speech\<close>: \<open>int\<close> raises on a distance that is not finite.\<close>

definition format_distance_speech :: "pyfloat \<Rightarrow> exn + string" where
  "format_distance_speech meters =
     (if flt meters (Fin 1.0) then
        (case int_of_float (fmul meters (Fin 100)) of
           Inl e \<Rightarrow> Inl e
         | Inr cm \<Rightarrow> Inr (show_int cm @ '' centimeters''))
      else if flt meters (Fin 10.0) then Inr (format_1f meters @ '' meters'')
      else
        (case int_of_float meters of
           Inl e \<Rightarrow> Inl e
         | Inr n \<Rightarrow> Inr (show_int n @ '' meters'')))"

subsection \<open>What a handler takes from outside\<close>

text \<open>
  The exception that the first stages of a handler's \<open>try\<close> block raise, if any: decoding
  the image (\<open>dec\<close>), calling the gateway, parsing its text, reading the first field of a
  JSON value that is not an object.
\<close>

definition raised_by :: "exn option \<Rightarrow> 'a reply \<Rightarrow> exn option" where
  "raised_by dec rep =
     (case dec of
        Some e \<Rightarrow> Some e
      | None \<Rightarrow>
          (case rep of
             CallRaises e \<Rightarrow> Some e
           | EmptyText \<Rightarrow> None
           | ParseRaises e \<Rightarrow> Some e
           | NotAnObject \<Rightarrow> Some AttributeError
           | Json r \<Rightarrow> None))"

record micro_result =
  mr_x :: "pyfloat field"
  mr_y :: "pyfloat field"
  mr_action :: "string field"
  mr_guidance_speech :: "string field"

record task_result =
  tr_step_completed :: "bool field"
  tr_speech :: "string field"
  tr_visual_feedback :: "string field"

record nav_result =
  n_priority :: "string field"
  n_category :: "string field"
  n_subject :: "string field"
  n_distance :: "pyfloat field"
  n_direction :: "string field"
  n_speech :: "string field"
  n_scene_description :: "string field"
  n_target_detected :: "bool field"
  n_current_location_tag :: "string field"
  n_objects :: "detection list field"

text \<open>The clock readings of \<open>process_task_frame\<close>, in the order of the calls that take them.\<close>

record task_env =
  te_t_speak :: real
  te_t_speaking :: real
  te_t_record :: real
  te_t_sync :: real

text \<open>
  The clock readings of \<open>process_frame\<close> and whether the memory file can be written:
  \<open>log_object\<close> (two readings), \<open>update_memory\<close> and \<open>prune_memory\<close>, \<open>should_speak\<close> (two),
  \<open>record_speech\<close>, \<open>process_detections\<close> and the updates inside it.
\<close>

record nav_env =
  ne_t_log_entry :: real
  ne_t_log_check :: real
  ne_io_ok :: bool
  ne_t_memory :: real
  ne_t_prune :: real
  ne_t_speak :: real
  ne_t_speaking :: real
  ne_t_record :: real
  ne_t_track :: real
  ne_t_updates :: "nat \<Rightarrow> real"

definition skip_frame :: "world \<Rightarrow> world" where
  "skip_frame w = w\<lparr>session := (session w)\<lparr>frames_skipped := frames_skipped (session w) + 1\<rparr>\<rparr>"

definition count_processed :: "world \<Rightarrow> world" where
  "count_processed w =
     w\<lparr>session := (session w)\<lparr>frames_processed := frames_processed (session w) + 1\<rparr>\<rparr>"

subsection \<open>Micro-navigation\<close>

text \<open>
  \<open>process_micro_frame\<close> up to its \<open>try\<close> block: it returns at once without an image or a
  target, and holds the target otherwise.
\<close>

definition micro_start :: "frame \<Rightarrow> world \<Rightarrow> handler \<times> world" where
  "micro_start fr w =
     (if f_image fr = [] \<or> \<not> truthy (micro_target (session w)) then (Micro None, w)
      else (Micro (micro_target (session w)), w))"

text \<open>
  The \<open>try\<close> block of \<open>process_micro_frame\<close>: the exception it raises, if any, and the world
  it leaves. \<open>frames_processed\<close> is incremented before the fields of the result are read,
  so a result that is not an object is counted as processed before \<open>.get\<close> raises.
\<close>

definition micro_try :: "exn option \<Rightarrow> micro_result reply \<Rightarrow> world \<Rightarrow> exn option \<times> world" where
  "micro_try dec rep w =
     (case dec of
        Some e \<Rightarrow> (Some e, w)
      | None \<Rightarrow>
          (case rep of
             CallRaises e \<Rightarrow> (Some e, w)
           | EmptyText \<Rightarrow> (None, w)
           | ParseRaises e \<Rightarrow> (Some e, w)
           | NotAnObject \<Rightarrow> (Some AttributeError, count_processed w)
           | Json r \<Rightarrow>
               (None,
                send (MicroResult (dget (mr_x r) (Fin 0)) (dget (mr_y r) (Fin 0))
                        (dget (mr_action r) ''move'') (dget0 (mr_guidance_speech r)))
                  (count_processed w))))"

text \<open>The \<open>except Exception\<close> clause of \<open>process_micro_frame\<close>.\<close>

definition micro_except :: "exn \<Rightarrow> world \<Rightarrow> world" where
  "micro_except e w = skip_frame (logging (LogError ''Micro-Nav Error'' (Some e)) w)"

subsection \<open>Task guidance\<close>

text \<open>
  \<open>process_task_frame\<close> up to its \<open>try\<close> block: the two early returns, and the index \<open>idx\<close>
  that the handler holds otherwise.
\<close>

definition task_start :: "world \<Rightarrow> handler \<times> world" where
  "task_start w =
     (let ts = task_state (session w); idx = current_step_index ts in
      if \<not> is_active ts \<or> plan ts = [] then (Task None, set_mode ''nav'' w)
      else if idx \<ge> length (plan ts)
      then (Task None,
            set_mode ''nav'' (set_task_state TaskState_init
              (send (Speak ''Task already completed.'') w)))
      else (Task (Some idx), w))"

text \<open>
  Steps 3 to 5 of \<open>process_task_frame\<close>, for a parsed result. \<open>idx\<close> is the index that
  the handler read at its start, the task state is the one of the session now: writing
  \<open>plan[idx]\<close> raises \<open>IndexError\<close> when the plan has become shorter in between.
\<close>

definition task_verdict :: "task_env \<Rightarrow> task_result \<Rightarrow> nat \<Rightarrow> world \<Rightarrow> exn option \<times> world" where
  "task_verdict env r idx w =
     (let ts = task_state (session w);
          step_completed = (dget (tr_step_completed r) False = Some True);
          speech = dget (tr_speech r) [];
          visual_feedback = dget (tr_visual_feedback r) []
      in if step_completed \<and> idx \<ge> length (plan ts) then (Some IndexError, w)
         else
           let w1 =
                 (if step_completed then
                    let ts1 = ts\<lparr>plan := (plan ts)[idx := (plan ts ! idx)\<lparr>completed := True\<rparr>],
                                 current_step_index := current_step_index ts + 1\<rparr>
                    in if current_step_index ts1 \<ge> length (plan ts1)
                       then set_mode ''nav'' (set_task_state (ts1\<lparr>is_active := False\<rparr>)
                              (send (Speak ''Task completed! Great job.'') w))
                       else send (Speak (''Step done. Next: '' @
                                           instruction (plan ts1 ! current_step_index ts1)))
                              (set_task_state ts1 w)
                  else if truthy speech then
                    (if fst (should_speak (te_t_speak env) (te_t_speaking env)
                               (speech_manager (session w)) ''medium'' ''task'' ''guidance''
                               ''task'' (Fin 1.0) (py_str speech))
                     then send (Speak (py_str speech))
                            (w\<lparr>session := (session w)\<lparr>speech_manager :=
                                  record_speech (te_t_record env) (speech_manager (session w))
                                    (py_str speech) ''medium'' ''task'' ''guidance'' ''task''
                                    (Fin 1.0)\<rparr>\<rparr>)
                     else w)
                  else w);
               w2 = w1\<lparr>global_task_state :=
                         update_from (te_t_sync env) (task_state (session w1)) []
                           (global_task_state w1)\<rparr>;
               w3 = count_processed w2;
               ts3 = task_state (session w3)
           in (None,
               send (TaskUpdate (plan ts3) (current_step_index ts3) (Feedback visual_feedback))
                 w3))"

text \<open>The \<open>try\<close> block of \<open>process_task_frame\<close>.\<close>

definition task_try ::
  "task_env \<Rightarrow> exn option \<Rightarrow> task_result reply \<Rightarrow> nat \<Rightarrow> world \<Rightarrow> exn option \<times> world" where
  "task_try env dec rep idx w =
     (case raised_by dec rep of
        Some e \<Rightarrow> (Some e, w)
      | None \<Rightarrow>
          (case rep of
             Json r \<Rightarrow> task_verdict env r idx w
           | other \<Rightarrow> (None, w)))"

definition task_except :: "exn \<Rightarrow> world \<Rightarrow> world" where
  "task_except e w = skip_frame (logging (LogError ''Task Guidance Error'' (Some e)) w)"

subsection \<open>Navigation\<close>

text \<open>A \<open>deque(maxlen=5)\<close>: appending to a full one drops the oldest element.\<close>

definition deque_append :: "'a \<Rightarrow> 'a list \<Rightarrow> 'a list" where
  "deque_append x xs = (if length (xs @ [x]) > 5 then tl (xs @ [x]) else xs @ [x])"

text \<open>\<open>SessionState.update_memory\<close> with \<open>prune_memory()\<close> at its end.\<close>

definition update_memory ::
  "real \<Rightarrow> real \<Rightarrow> string \<Rightarrow> string option \<Rightarrow> pyfloat \<Rightarrow> string option \<Rightarrow> SessionState
     \<Rightarrow> SessionState" where
  "update_memory t t_prune subject dir dst cat s =
     s\<lparr>object_memory :=
         filter (\<lambda>kv. t_prune - m_timestamp (snd kv) < 30.0)
           (dict_set (lower subject)
              \<lparr>m_timestamp = t, m_direction = dir, m_distance = dst, m_category = cat\<rparr>
              (object_memory s))\<rparr>"

text \<open>
  The local variables that \<open>process_frame\<close> takes from the result. \<open>.lower()\<close> on a priority that is \<open>None\<close> raises \<open>AttributeError\<close>,
  \<open>float\<close> of a distance that is \<open>None\<close> raises \<open>TypeError\<close>; the other fields are taken as
  they are.
\<close>

record nav_fields =
  nf_prio :: string
  nf_category :: "string option"
  nf_subject :: "string option"
  nf_dist :: pyfloat
  nf_direction :: "string option"
  nf_speech_text :: "string option"
  nf_scene_desc :: "string option"
  nf_target_detected :: "bool option"

definition read_fields :: "nav_result \<Rightarrow> exn + nav_fields" where
  "read_fields result =
     (case dget (n_priority result) ''low'' of
        None \<Rightarrow> Inl AttributeError
      | Some p \<Rightarrow>
          (case dget (n_distance result) (Fin 2.0) of
             None \<Rightarrow> Inl TypeError
           | Some x \<Rightarrow>
               Inr \<lparr>nf_prio = lower p,
                    nf_category = dget (n_category result) ''navigation'',
                    nf_subject = dget (n_subject result) [],
                    nf_dist = py_float x,
                    nf_direction = dget (n_direction result) ''ahead'',
                    nf_speech_text = dget (n_speech result) [],
                    nf_scene_desc = dget (n_scene_description result) [],
                    nf_target_detected = dget (n_target_detected result) False\<rparr>))"

text \<open>
  The social buffer, the persistent log and the short-term memory (the first three steps
  of the pipeline).
\<close>

definition remember :: "nav_env \<Rightarrow> nav_result \<Rightarrow> nav_fields \<Rightarrow> world \<Rightarrow> world" where
  "remember env result f w =
     (let s = session w;
          s1 = (if truthy (nf_scene_desc f)
                then s\<lparr>social_context := deque_append (py_str (nf_scene_desc f)) (social_context s)\<rparr>
                else s);
          mem1 = (if truthy (nf_subject f)
                     \<and> (case nf_category f of
                           None \<Rightarrow> False
                         | Some c \<Rightarrow> c \<in> set [''target'', ''social'', ''text'', ''furniture''])
                  then log_object (ne_t_log_entry env) (ne_t_log_check env) (ne_io_ok env)
                         (py_str (nf_subject f)) (dget0 (n_current_location_tag result))
                         (nf_scene_desc f) (memory_store w)
                  else memory_store w);
          s2 = (if truthy (nf_subject f)
                then update_memory (ne_t_memory env) (ne_t_prune env) (py_str (nf_subject f))
                       (nf_direction f) (nf_dist f) (nf_category f) s1
                else s1)
      in w\<lparr>session := s2, memory_store := mem1\<rparr>)"

text \<open>
  The target alert: with a target detected and a goal set, \<open>subject.lower()\<close> is
  evaluated, which raises \<open>AttributeError\<close> on a subject that is \<open>None\<close>. The alert itself
  goes to the console only.
\<close>

definition target_alert :: "nav_fields \<Rightarrow> world \<Rightarrow> exn option" where
  "target_alert f w =
     (if nf_target_detected f = Some True \<and> truthy (current_goal (session w))
         \<and> nf_subject f = None
      then Some AttributeError else None)"

text \<open>
  The distance appended to the speech text, when there is a text and the distance is
  positive and its whole metres are not in the text yet.
\<close>

definition distance_speech :: "nav_fields \<Rightarrow> exn + string option" where
  "distance_speech f =
     (if truthy (nf_speech_text f) \<and> flt (Fin 0) (nf_dist f) then
        (case format_distance_speech (nf_dist f) of
           Inl e \<Rightarrow> Inl e
         | Inr dist_str \<Rightarrow>
             (case int_of_float (nf_dist f) of
                Inl e \<Rightarrow> Inl e
              | Inr n \<Rightarrow>
                  if \<not> contains (py_str (nf_speech_text f)) (show_int n)
                  then Inr (Some (py_str (nf_speech_text f) @ '' '' @ dist_str @ '' away.''))
                  else Inr (nf_speech_text f)))
      else Inr (nf_speech_text f))"

text \<open>
  The speech decision. \<open>should_speak\<close> begins with \<open>extract_semantic_key\<close>, whose
  \<open>subject.lower()\<close> raises \<open>AttributeError\<close> on a subject that is \<open>None\<close>; direction and
  category only go through an f-string there, which renders \<open>None\<close> as a word.
\<close>

definition speech_decision ::
  "nav_env \<Rightarrow> nav_fields \<Rightarrow> string option \<Rightarrow> world \<Rightarrow> (exn + bool) \<times> world" where
  "speech_decision env f speech_text w =
     (case nf_subject f of
        None \<Rightarrow> (Inl AttributeError, w)
      | Some subject \<Rightarrow>
          (let s = session w;
              speak = fst (should_speak (ne_t_speak env) (ne_t_speaking env) (speech_manager s)
                             (nf_prio f) subject (py_str (nf_direction f))
                             (py_str (nf_category f)) (nf_dist f) (py_str speech_text))
          in if speak \<and> truthy speech_text
             then (Inr speak,
                   send (Speak (py_str speech_text))
                     (w\<lparr>session := s\<lparr>speech_manager :=
                           record_speech (ne_t_record env) (speech_manager s)
                             (py_str speech_text) (nf_prio f) subject (py_str (nf_direction f))
                             (py_str (nf_category f)) (nf_dist f)\<rparr>\<rparr>))
             else (Inr speak, w)))"

text \<open>
  The tracker and the objects for the UI. \<open>process_detections\<close> prunes before it iterates,
  and iterating over \<open>None\<close> raises \<open>TypeError\<close>.
\<close>

definition track_objects :: "nav_env \<Rightarrow> nav_result \<Rightarrow> world \<Rightarrow> (exn + ui_objects) \<times> world" where
  "track_objects env result w =
     (let s = session w in
      (case dget (n_objects result) [] of
         None \<Rightarrow>
           (Inl TypeError,
            w\<lparr>session := s\<lparr>tracker := prune_expired (ne_t_track env) (tracker s)\<rparr>\<rparr>)
       | Some raw_objects \<Rightarrow>
           (case process_detections (ne_t_track env) (ne_t_updates env) raw_objects (tracker s) of
              (Inl e, trk) \<Rightarrow> (Inl e, w\<lparr>session := s\<lparr>tracker := trk\<rparr>\<rparr>)
            | (Inr stable_objects, trk) \<Rightarrow>
                (Inr (if stable_objects \<noteq> []
                      then StableObjects
                             (map (\<lambda>obj. (name obj, distance obj, category obj)) stable_objects)
                      else RawObjects (take 5 raw_objects)),
                 w\<lparr>session := s\<lparr>tracker := trk\<rparr>\<rparr>))))"

text \<open>The frame is counted as processed and the result is sent.\<close>

definition report :: "nav_fields \<Rightarrow> ui_objects \<Rightarrow> world \<Rightarrow> world" where
  "report f ui w =
     (let w1 = count_processed w; s = session w1
      in send (Result (nf_prio f) (nf_dist f) (nf_direction f) (nf_target_detected f)
                 (current_goal s) ui (nf_scene_desc f) (frames_received s) (frames_processed s))
           w1)"

text \<open>
  \<open>Console.detection\<close> at the end of the \<open>try\<close> block: it takes \<open>len(speech)\<close>, which raises
  \<open>TypeError\<close> on a speech text that is \<open>None\<close>.
\<close>

definition console_detection :: "string option \<Rightarrow> exn option" where
  "console_detection speech_text = (case speech_text of None \<Rightarrow> Some TypeError | Some s \<Rightarrow> None)"

text \<open>
  Step 5 of \<open>process_frame\<close> and what follows it, for a parsed result: the exception that
  the pipeline raises, if any, and the world at that moment.
\<close>

definition nav_pipeline :: "nav_env \<Rightarrow> nav_result \<Rightarrow> world \<Rightarrow> exn option \<times> world" where
  "nav_pipeline env result w =
     (case read_fields result of
        Inl e \<Rightarrow> (Some e, w)
      | Inr f \<Rightarrow>
          (let w1 = remember env result f w in
           (case target_alert f w1 of
              Some e \<Rightarrow> (Some e, w1)
            | None \<Rightarrow>
                (case distance_speech f of
                   Inl e \<Rightarrow> (Some e, w1)
                 | Inr speech_text \<Rightarrow>
                     (case speech_decision env f speech_text w1 of
                        (Inl e, w2) \<Rightarrow> (Some e, w2)
                      | (Inr speak, w2) \<Rightarrow>
                          (case track_objects env result w2 of
                             (Inl e, w3) \<Rightarrow> (Some e, w3)
                           | (Inr ui, w3) \<Rightarrow>
                               (console_detection speech_text, report f ui w3)))))))"

text \<open>The \<open>try\<close> block of \<open>process_frame\<close>.\<close>

definition nav_try :: "nav_env \<Rightarrow> exn option \<Rightarrow> nav_result reply \<Rightarrow> world \<Rightarrow> exn option \<times> world" where
  "nav_try env dec rep w =
     (case raised_by dec rep of
        Some e \<Rightarrow> (Some e, w)
      | None \<Rightarrow>
          (case rep of
             Json result \<Rightarrow> nav_pipeline env result w
           | other \<Rightarrow> (None, logging (LogWarning ''Model returned empty response.'') w)))"

text \<open>The two \<open>except\<close> clauses of \<open>process_frame\<close>.\<close>

definition nav_except :: "exn \<Rightarrow> world \<Rightarrow> world" where
  "nav_except e w =
     (if e = TimeoutError then skip_frame (logging (LogWarning ''AI Model Timed Out'') w)
      else skip_frame (logging (LogError ''Nav Process Error'' (Some e)) w))"

subsection \<open>The handlers from the reply on, and as a whole\<close>

text \<open>
  What a handler that holds its local variable takes from outside, by handler: the
  outcome of decoding the image, the gateway's reply, the clock readings.
\<close>

datatype handler_io =
    MicroIO "exn option" "micro_result reply"
  | TaskIO task_env "exn option" "task_result reply"
  | NavIO nav_env "exn option" "nav_result reply"

text \<open>
  The \<open>try\<close> block of the handler that was called, run on what comes from outside:
  \<open>None\<close> when the handler has returned already, or is paired with the input of another
  handler.
\<close>

fun handler_try :: "handler \<Rightarrow> handler_io \<Rightarrow> world \<Rightarrow> (exn option \<times> world) option" where
  "handler_try (Micro (Some target)) (MicroIO dec rep) w = Some (micro_try dec rep w)"
| "handler_try (Task (Some idx)) (TaskIO env dec rep) w = Some (task_try env dec rep idx w)"
| "handler_try Nav (NavIO env dec rep) w = Some (nav_try env dec rep w)"
| "handler_try h io w = None"

text \<open>The \<open>except\<close> clauses of the handler that was called.\<close>

fun handler_except :: "handler \<Rightarrow> exn \<Rightarrow> world \<Rightarrow> world" where
  "handler_except (Micro l) e w = micro_except e w"
| "handler_except (Task l) e w = task_except e w"
| "handler_except Nav e w = nav_except e w"

text \<open>
  The three handlers as the source has them, when nothing else runs while they wait:
  the start, the \<open>try\<close> block, the \<open>except\<close> clause for what the block raises.
\<close>

definition try_except :: "handler \<Rightarrow> exn option \<times> world \<Rightarrow> world" where
  "try_except h r = (case r of (None, w) \<Rightarrow> w | (Some e, w) \<Rightarrow> handler_except h e w)"

definition process_micro_frame :: "exn option \<Rightarrow> micro_result reply \<Rightarrow> frame \<Rightarrow> world \<Rightarrow> world" where
  "process_micro_frame dec rep fr w =
     (case micro_start fr w of
        (Micro (Some target), w1) \<Rightarrow> try_except (Micro (Some target)) (micro_try dec rep w1)
      | (h, w1) \<Rightarrow> w1)"

definition process_task_frame ::
  "task_env \<Rightarrow> exn option \<Rightarrow> task_result reply \<Rightarrow> frame \<Rightarrow> world \<Rightarrow> world" where
  "process_task_frame env dec rep fr w =
     (case task_start w of
        (Task (Some idx), w1) \<Rightarrow> try_except (Task (Some idx)) (task_try env dec rep idx w1)
      | (h, w1) \<Rightarrow> w1)"

definition process_frame ::
  "nav_env \<Rightarrow> exn option \<Rightarrow> nav_result reply \<Rightarrow> frame \<Rightarrow> world \<Rightarrow> world" where
  "process_frame env dec rep fr w = try_except Nav (nav_try env dec rep w)"

section \<open>The ingestion loop (routes/websocket.py)\<close>

text \<open>
  The steps of one connection after the consumer task is created. The receive loop and
  the consumer are coroutines of one event loop: the code between two points where a
  coroutine gives way runs as one step.
  \<^item> \<open>Submit b\<close>: the receive loop gets a binary message.
  \<^item> \<open>Inquiry\<close>: the receive loop gets an inquiry and runs \<open>process_inquiry\<close>.
  \<^item> \<open>Wake\<close>: \<open>frame_event.wait()\<close> returns in the consumer, which clears the event, claims
    the pending frame if there is one, and calls the handler of the current mode; the
    handler runs up to its first \<open>await\<close>.
  \<^item> \<open>Finish io\<close>: the handler that was called gets what \<open>io\<close> gives it and runs to its end,
    on the session as it is now. The clause \<open>finally\<close> follows. A handler that has returned
    at its start only has the clause \<open>finally\<close> left.
  \<^item> \<open>Disconnect now\<close>: the receive loop ends; an active task is saved and the consumer is
    cancelled, running \<open>finally\<close> if it is inside a handler.
  A step that the state does not allow leaves the world as it is.
\<close>

datatype event =
    Submit string
  | Inquiry real intent_env intent_env "inquiry_result reply" inquiry_data
  | Wake
  | Finish handler_io
  | Disconnect real

text \<open>The routing on the mode, with the start of the handler that is called.\<close>

definition start_handler :: "string \<Rightarrow> frame \<Rightarrow> world \<Rightarrow> handler \<times> world" where
  "start_handler m fr w =
     (if m = ''micro'' then micro_start fr w else if m = ''task'' then task_start w
      else (Nav, w))"

text \<open>The branch \<open>elif "bytes" in message\<close> of the receive loop.\<close>

definition submit :: "string \<Rightarrow> world \<Rightarrow> world" where
  "submit b w =
     (let s = (session w)\<lparr>frames_received := frames_received (session w) + 1\<rparr>;
          frame_payload = \<lparr>f_image = b, f_heading = 0, f_task = ''navigation''\<rparr>
      in if \<not> is_processing s
         then w\<lparr>session := s\<lparr>latest_frame := Some frame_payload\<rparr>, frame_event := True\<rparr>
         else w\<lparr>session := s\<lparr>latest_frame := Some frame_payload,
                                frames_skipped := frames_skipped s + 1\<rparr>\<rparr>)"

text \<open>
  The consumer from \<open>frame_event.clear()\<close> to the first \<open>await\<close> of the handler it calls.
\<close>

definition wake :: "world \<Rightarrow> world" where
  "wake w =
     (let w1 = w\<lparr>frame_event := False\<rparr>; s = session w1 in
      case latest_frame s of
        None \<Rightarrow> w1
      | Some frame_data \<Rightarrow>
          if \<not> is_processing s
          then
            (case start_handler (mode s) frame_data
                    (w1\<lparr>session := s\<lparr>is_processing := True, latest_frame := None\<rparr>\<rparr>) of
               (h, w2) \<Rightarrow> w2\<lparr>consumer := Handling h frame_data\<rparr>)
          else w1)"

text \<open>The clause \<open>finally\<close> of the consumer.\<close>

definition loop_finally :: "world \<Rightarrow> world" where
  "loop_finally w =
     (let w1 = w\<lparr>session := (session w)\<lparr>is_processing := False\<rparr>\<rparr>
      in if latest_frame (session w1) \<noteq> None then w1\<lparr>frame_event := True\<rparr> else w1)"

text \<open>
  The handler call of the consumer from the reply on: \<open>Inr\<close> when the handler returns,
  \<open>Inl\<close> when an exception leaves it. Every statement of a handler that can raise stands in
  the handler's own \<open>try\<close>, so every handler returns. A handler paired with the input of
  another handler is no step (\<open>None\<close>).
\<close>

fun run_handler :: "handler \<Rightarrow> handler_io \<Rightarrow> world \<Rightarrow> (exn + world) option" where
  "run_handler (Micro None) io w = Some (Inr w)"
| "run_handler (Task None) io w = Some (Inr w)"
| "run_handler h io w =
     (case handler_try h io w of
        None \<Rightarrow> None
      | Some r \<Rightarrow> Some (Inr (try_except h r)))"

text \<open>
  The inner \<open>try\<close> of the loop around the handler call: its clause \<open>except Exception\<close>
  logs the exception and does not touch the counters; \<open>finally\<close> follows on both paths and
  the loop goes back to waiting. Nothing else in the body of the loop raises, so the
  outer clause \<open>except Exception\<close> is not entered.
\<close>

definition finish :: "handler_io \<Rightarrow> world \<Rightarrow> world" where
  "finish io w =
     (case consumer w of
        Handling h frame_data \<Rightarrow>
          (case run_handler h io w of
             Some (Inr w1) \<Rightarrow> (loop_finally w1)\<lparr>consumer := Waiting\<rparr>
           | Some (Inl e) \<Rightarrow>
               (loop_finally (logging (LogError ''Frame Processing Exception'' (Some e)) w))
                 \<lparr>consumer := Waiting\<rparr>
           | None \<Rightarrow> w)
      | other \<Rightarrow> w)"

text \<open>The clause \<open>finally\<close> of \<open>websocket_endpoint\<close>.\<close>

definition disconnect :: "real \<Rightarrow> world \<Rightarrow> world" where
  "disconnect now w =
     (let w1 = (if is_active (task_state (session w))
                then w\<lparr>global_task_state :=
                         update_from now (task_state (session w)) [] (global_task_state w)\<rparr>
                else w);
          w2 = (case consumer w1 of Handling h frame_data \<Rightarrow> loop_finally w1 | other \<Rightarrow> w1)
      in w2\<lparr>consumer := Stopped\<rparr>)"

definition step :: "event \<Rightarrow> world \<Rightarrow> world" where
  "step ev w =
     (if consumer w = Stopped then w
      else
        case ev of
          Submit b \<Rightarrow> submit b w
        | Inquiry now env1 env2 rep dat \<Rightarrow> receive_inquiry now env1 env2 rep dat w
        | Wake \<Rightarrow> (if consumer w = Waiting \<and> frame_event w then wake w else w)
        | Finish io \<Rightarrow> finish io w
        | Disconnect now \<Rightarrow> disconnect now w)"

text \<open>A run: the events in the order in which they happen.\<close>

fun run :: "event list \<Rightarrow> world \<Rightarrow> world" where
  "run [] w = w"
| "run (ev # evs) w = run evs (step ev w)"

text \<open>The payload of the last binary message among the events, if there is one.\<close>

fun last_submitted :: "event list \<Rightarrow> frame option" where
  "last_submitted [] = None"
| "last_submitted (ev # evs) =
     (case last_submitted evs of
        Some fr \<Rightarrow> Some fr
      | None \<Rightarrow>
          (case ev of
             Submit b \<Rightarrow> Some \<lparr>f_image = b, f_heading = 0, f_task = ''navigation''\<rparr>
           | other \<Rightarrow> None))"

subsection \<open>What a handler leaves alone\<close>

text \<open>
  Two worlds with the same pending frame, the same skip counter and the same log: the
  parts of the world that no \<open>try\<close> block of a handler writes before it raises.
\<close>

definition untouched :: "world \<Rightarrow> world \<Rightarrow> bool" where
  "untouched w w' =
     (latest_frame (session w') = latest_frame (session w)
      \<and> frames_skipped (session w') = frames_skipped (session w)
      \<and> log w' = log w)"

section \<open>Concrete inputs\<close>

text \<open>A detection of a chair at \<open>x\<close> metres, with every key of the gateway's schema.\<close>

definition chair :: "real \<Rightarrow> detection" where
  "chair x = \<lparr>d_name = Val ''Chair'', d_confidence_score = Val (Fin 90), d_distance = Val (Fin x),
               d_direction = Val ''left'', d_category = Val ''furniture''\<rparr>"

text \<open>The speech gate after one medium announcement of a door, made at time 100.\<close>

definition gate_after_door :: SpeechManager where
  "gate_after_door =
     record_speech 100 SpeechManager_init ''Door ahead'' ''medium'' ''Grey Door'' ''ahead''
       ''navigation'' (Fin 2.0)"

text \<open>
  A detection that carries a name and a distance and no \<open>confidence_score\<close> key, and the
  same detection with \<open>null\<close> for its distance.
\<close>

definition cup :: detection where
  "cup = \<lparr>d_name = Val ''Cup'', d_confidence_score = Absent, d_distance = Val (Fin 1.5),
          d_direction = Absent, d_category = Absent\<rparr>"

definition cup_without_distance :: detection where
  "cup_without_distance = cup\<lparr>d_distance := Null\<rparr>"

text \<open>A sighting logged at time \<open>t\<close>, and the store after two sightings.\<close>

definition sighting :: "real \<Rightarrow> string \<Rightarrow> log_call" where
  "sighting t obj = \<lparr>c_t_entry = t, c_t_check = t, c_io_ok = True, c_object = obj,
                     c_location = None, c_scene = Some ''a room''\<rparr>"

definition memory_chair_door :: PersistentMemory where
  "memory_chair_door = log_calls [sighting 0 ''chair'', sighting 1 ''door''] PersistentMemory_init"

text \<open>A plan of three steps, and the durable state of that plan driven past its last step.\<close>

definition tea_plan :: "TaskStep list" where
  "tea_plan =
     [\<lparr>step_id = 1, instruction = ''Fill the kettle'', items = [''kettle''], completed = False\<rparr>,
      \<lparr>step_id = 2, instruction = ''Boil the water'', items = [''kettle''], completed = False\<rparr>,
      \<lparr>step_id = 3, instruction = ''Pour the water'', items = [''mug''], completed = False\<rparr>]"

definition finished_task :: GlobalTaskState where
  "finished_task =
     \<lparr>g_is_active = True, g_plan = tea_plan, g_current_step_index = 3, task_name = ''make tea'',
      last_updated = 0\<rparr>"

text \<open>
  An inquiry envelope with image and audio, the intent object the gateway returns for a
  spoken command, and a planner that answers with the three steps.
\<close>

definition voice :: inquiry_data where
  "voice = \<lparr>q_image = Some ''data:image/jpeg;base64,AAAA'',
            q_audio = Some ''data:audio/webm;base64,AAAA''\<rparr>"

definition said :: "string \<Rightarrow> string option \<Rightarrow> inquiry_result" where
  "said i tname =
     \<lparr>i_intent = Some i, i_speech = Some ''Okay.'', i_thinking = None, i_target = None,
      i_search_target = None, i_goal = None, i_tag_name = None, i_scene_description = None,
      i_task_name = tname\<rparr>"

definition planner :: "real \<Rightarrow> intent_env" where
  "planner t = \<lparr>ie_plan_reply = Returns (PlanList tea_plan), ie_now = t, ie_io_ok = True\<rparr>"

text \<open>
  A new connection on which the user has asked for help with making tea: the task is
  active at step index 0 of three steps.
\<close>

definition tea_world :: world where
  "tea_world =
     receive_inquiry 1 (planner 1) (planner 1) (Json (said ''task'' (Some ''make tea''))) voice
       (connect 0 GlobalTaskState_init PersistentMemory_init)"


definition quiet_nav :: nav_env where
  "quiet_nav =
     \<lparr>ne_t_log_entry = 0, ne_t_log_check = 0, ne_io_ok = True, ne_t_memory = 0,
      ne_t_prune = 0, ne_t_speak = 0, ne_t_speaking = 0, ne_t_record = 0, ne_t_track = 0,
      ne_t_updates = (\<lambda>i. 0)\<rparr>"


definition busy_run :: "event list" where
  "busy_run =
     [Submit ''a'', Wake, Submit ''b'', Submit ''c'',
      Finish (NavIO quiet_nav (Some (OtherError ''truncated image'')) EmptyText)]"









section \<open>Auxiliary facts\<close>

subsection \<open>Evaluation of floats\<close>

lemma bit_length_numeral:
  "bit_length (numeral (Num.Bit0 n)) = Suc (bit_length (numeral n))"
  "bit_length (numeral (Num.Bit1 n)) = Suc (bit_length (numeral n))"
  "bit_length 1 = 1" "bit_length 0 = 0" "bit_length (Suc 0) = 1"
  by (subst bit_length.simps, simp)+

lemmas float_eval =
  double_def ilog2_def pow2_def round_half_even_def Let_def bit_length_numeral fl_def
  fadd_def fsub_def fmul_def flt_def

lemma default_confidence_meets_threshold: "\<not> flt (Fin 100) (Fin 75)"
  by (simp add: float_eval)

lemma fl_zero: "fl 0 = Fin 0"
  by (simp add: float_eval)

subsection \<open>The tracker\<close>

lemma dict_get_dict_set:
  "dict_get (dict_set k v kvs) k' = (if k' = k then Some v else dict_get kvs k')"
  by (induction kvs) auto

lemma ingest_one_threshold:
  "ingest_one now t det trk = Inr trk1 \<Longrightarrow> confidence_threshold trk1 = confidence_threshold trk"
  by (auto simp add: ingest_one_def Let_def split: option.splits if_splits)

lemma ingest_one_keeps_key:
  assumes "ingest_one now t det trk = Inr trk1" and "dict_get (tracked_objects trk) k \<noteq> None"
  shows "dict_get (tracked_objects trk1) k \<noteq> None"
  using assms
  by (auto simp add: ingest_one_def Let_def dict_get_dict_set split: option.splits if_splits)

lemma ingest_one_raises_type_error: "ingest_one now t det trk = Inl e \<Longrightarrow> e = TypeError"
  by (auto simp add: ingest_one_def Let_def split: option.splits if_splits)

lemma ingest_loop_raises_type_error:
  "ingest_loop now clk dets trk = (Some e, trk1) \<Longrightarrow> e = TypeError"
proof (induction dets arbitrary: clk trk)
  case Nil
  then show ?case by simp
next
  case (Cons det dets)
  show ?case
  proof (cases "ingest_one now (clk 0) det trk")
    case (Inl e')
    with Cons.prems show ?thesis by (simp add: ingest_one_raises_type_error)
  next
    case (Inr trk2)
    with Cons.prems have "ingest_loop now (\<lambda>i. clk (Suc i)) dets trk2 = (Some e, trk1)" by simp
    then show ?thesis by (rule Cons.IH)
  qed
qed

lemma ingest_loop_keeps_key:
  assumes "ingest_loop now clk dets trk = (None, trk1)"
    and "dict_get (tracked_objects trk) k \<noteq> None"
  shows "dict_get (tracked_objects trk1) k \<noteq> None"
  using assms
proof (induction dets arbitrary: clk trk)
  case Nil
  then show ?case by simp
next
  case (Cons det dets)
  show ?case
  proof (cases "ingest_one now (clk 0) det trk")
    case (Inl e')
    with Cons.prems show ?thesis by simp
  next
    case (Inr trk2)
    with Cons.prems have l: "ingest_loop now (\<lambda>i. clk (Suc i)) dets trk2 = (None, trk1)" by simp
    have "dict_get (tracked_objects trk2) k \<noteq> None"
      by (rule ingest_one_keeps_key [OF Inr Cons.prems(2)])
    with l show ?thesis by (rule Cons.IH)
  qed
qed

text \<open>
  What the loop body does with a named detection that has no \<open>confidence_score\<close> key, at
  the default threshold.
\<close>

lemma ingest_one_default_confidence:
  assumes "d_name det = Val nm" and "nm \<noteq> []" and "d_confidence_score det = Absent"
    and "confidence_threshold trk = 75"
  shows "ingest_one now t det trk =
           (case dget (d_distance det) (Fin 0) of
              None \<Rightarrow> Inl TypeError
            | Some x \<Rightarrow>
                Inr (trk\<lparr>tracked_objects :=
                       dict_set (lower nm)
                         (case dict_get (tracked_objects trk) (lower nm) of
                            Some obj \<Rightarrow>
                              obj\<lparr>last_seen := t,
                                  frames_detected := frames_detected obj + 1,
                                  raw_distance := py_float x,
                                  raw_direction := dget (d_direction det) ''ahead'',
                                  confidence := Fin 100,
                                  distance := fadd (fmul (distance obj) (Fin 0.7))
                                                (fmul (py_float x) (Fin 0.3)),
                                  direction := dget (d_direction det) ''ahead'',
                                  is_stable := (1 \<le> frames_detected obj \<or> is_stable obj)\<rparr>
                          | None \<Rightarrow>
                              \<lparr>name = nm, category = dget (d_category det) ''unknown'',
                               confidence = Fin 100, raw_distance = py_float x,
                               raw_direction = dget (d_direction det) ''ahead'',
                               distance = py_float x,
                               direction = dget (d_direction det) ''ahead'',
                               last_seen = now, frames_detected = 1, is_stable = False\<rparr>)
                         (tracked_objects trk)\<rparr>))"
  using assms
  by (simp add: ingest_one_def Let_def default_confidence_meets_threshold update_def
      new_tracked_def split: option.splits)

lemma ingest_loop_reaches:
  assumes "d_name det = Val nm" and "nm \<noteq> []" and "d_confidence_score det = Absent"
    and "confidence_threshold trk = 75"
  shows "(d_distance det = Null \<longrightarrow> fst (ingest_loop now clk (pre @ det # post) trk) = Some TypeError)
       \<and> (\<forall>trk1. ingest_loop now clk (pre @ det # post) trk = (None, trk1)
             \<longrightarrow> dict_get (tracked_objects trk1) (lower nm) \<noteq> None)"
  using assms(4)
proof (induction pre arbitrary: clk trk)
  case Nil
  note one = ingest_one_default_confidence [OF assms(1,2,3) Nil, of now "clk 0"]
  show ?case
  proof (intro conjI impI allI)
    assume "d_distance det = Null"
    then show "fst (ingest_loop now clk ([] @ det # post) trk) = Some TypeError"
      using one by simp
  next
    fix trk1
    assume l: "ingest_loop now clk ([] @ det # post) trk = (None, trk1)"
    then obtain trk2 where t2: "ingest_one now (clk 0) det trk = Inr trk2"
      and l2: "ingest_loop now (\<lambda>i. clk (Suc i)) post trk2 = (None, trk1)"
      by (cases "ingest_one now (clk 0) det trk") auto
    from t2 one have "dict_get (tracked_objects trk2) (lower nm) \<noteq> None"
      by (auto simp add: dict_get_dict_set split: option.splits)
    with l2 show "dict_get (tracked_objects trk1) (lower nm) \<noteq> None"
      by (rule ingest_loop_keeps_key)
  qed
next
  case (Cons d pre)
  show ?case
  proof (cases "ingest_one now (clk 0) d trk")
    case (Inl e)
    then have "e = TypeError" by (rule ingest_one_raises_type_error)
    with Inl show ?thesis by simp
  next
    case (Inr trk2)
    have "confidence_threshold trk2 = 75"
      using ingest_one_threshold [OF Inr] Cons.prems by simp
    from Cons.IH [OF this, of "\<lambda>i. clk (Suc i)"] Inr show ?thesis by simp
  qed
qed

subsection \<open>The speech gate and the memory\<close>

lemma gate_after_door_eval:
  "gate_after_door =
     \<lparr>current_speech_end_time = 101.3, last_semantic_key = ''door|ahead|navigation'',
      last_speech_time = 100, last_distance = Fin 2, last_priority = ''medium'',
      announced_subjects = [(''grey door'', 100)], recent_speeches = [''Door ahead'']\<rparr>"
  by (simp add: gate_after_door_def record_speech_def SpeechManager_init_def Let_def
      estimate_speech_duration_def extract_semantic_key_def lower_def lower_char_def strip_def
      is_space_def py_split_def ignore_words_def)

text \<open>
  The floats 1.1 and 0.6 differ by more than the float 0.5, so a candidate at 0.6 m after
  an announcement at 1.1 m is spoken as closer, whatever the time.
\<close>

lemma distance_closed_from_1_1_to_0_6:
  "flt (Fin 0.5) (fsub (Fin 1.1) (Fin 0.6))"
  "check_same_context (sm\<lparr>last_distance := Fin 1.1\<rparr>) ''medium'' now (Fin 0.6)
     = (True, ''distance_closed'')"
proof -
  show a: "flt (Fin 0.5) (fsub (Fin 1.1) (Fin 0.6))" by (simp add: float_eval)
  show "check_same_context (sm\<lparr>last_distance := Fin 1.1\<rparr>) ''medium'' now (Fin 0.6)
     = (True, ''distance_closed'')"
    using a by (simp add: check_same_context_def distance_change_def Let_def)
qed

lemma lower_chair_door: "lower ''chair'' = ''chair''" "lower ''door'' = ''door''"
  by (simp_all add: lower_def lower_char_def)

lemma history_of_log_object:
  "history_of (log_object te tc ok obj loc sc mem) =
     (if obj = [] \<or> lower obj \<in> set [''none'', ''unknown'', ''null''] then history_of mem
      else if history_of mem \<noteq> [] \<and> h_object (last (history_of mem)) = obj
              \<and> tc - h_timestamp (last (history_of mem)) < 10 then history_of mem
      else drop (length (history_of mem) + 1 - 1000)
             (history_of mem @
                [\<lparr>h_object = obj, h_location = loc, h_scene = sc, h_timestamp = te\<rparr>]))"
  by (auto simp add: log_object_def Let_def save_def history_of_def split: option.splits)

lemma history_of_init: "history_of PersistentMemory_init = []"
  by (simp add: history_of_def PersistentMemory_init_def)

lemma memory_chair_door_history:
  "history_of memory_chair_door =
     [\<lparr>h_object = ''chair'', h_location = None, h_scene = Some ''a room'', h_timestamp = 0\<rparr>,
      \<lparr>h_object = ''door'', h_location = None, h_scene = Some ''a room'', h_timestamp = 1\<rparr>]"
  by (simp add: memory_chair_door_def sighting_def history_of_log_object history_of_init
      lower_chair_door)

section \<open>Auxiliary facts: the ingestion loop\<close>

subsection \<open>The pending frame\<close>

lemma lf_basic [simp]:
  "latest_frame (session (send m w)) = latest_frame (session w)"
  "latest_frame (session (logging l w)) = latest_frame (session w)"
  "latest_frame (session (set_task_state ts w)) = latest_frame (session w)"
  "latest_frame (session (set_mode md w)) = latest_frame (session w)"
  "latest_frame (session (skip_frame w)) = latest_frame (session w)"
  "latest_frame (session (count_processed w)) = latest_frame (session w)"
  by (simp_all add: send_def logging_def set_task_state_def set_mode_def skip_frame_def
      count_processed_def)

lemma lf_except [simp]:
  "latest_frame (session (micro_except e w)) = latest_frame (session w)"
  "latest_frame (session (task_except e w)) = latest_frame (session w)"
  "latest_frame (session (nav_except e w)) = latest_frame (session w)"
  "latest_frame (session (inquiry_error e w)) = latest_frame (session w)"
  "latest_frame (session (handler_except h e w)) = latest_frame (session w)"
  by (simp_all add: micro_except_def task_except_def nav_except_def inquiry_error_def)
     (cases h; simp add: micro_except_def task_except_def nav_except_def)

lemma lf_task_control_finish [simp]:
  "latest_frame (session (snd (task_control_finish now txt w))) = latest_frame (session w)"
  by (simp add: task_control_finish_def Let_def)

lemma lf_handle_task_control [simp]:
  "latest_frame (session (snd (handle_task_control now intent w))) = latest_frame (session w)"
  by (simp add: handle_task_control_def Let_def)

lemma lf_generate_task_plan [simp]:
  "latest_frame (session (snd (generate_task_plan env tname w))) = latest_frame (session w)"
  by (simp add: generate_task_plan_def Let_def split: ext.splits plan_data.splits list.splits)

lemma lf_handle_intent [simp]:
  "latest_frame (session (snd (handle_intent env intent result w))) = latest_frame (session w)"
proof -
  have a: "\<And>p. latest_frame (session (snd (case p of (text, w1) \<Rightarrow> (Inr (Some text) :: exn + string option, w1))))
      = latest_frame (session (snd p))" by (simp add: split_beta)
  have b: "\<And>p. latest_frame (session (snd (case p of (Inl e, w1) \<Rightarrow> (Inl e :: exn + string option, w1)
         | (Inr text, w1) \<Rightarrow> (Inr (Some text), w1)))) = latest_frame (session (snd p))"
    by (simp add: split_beta split: sum.splits)
  show ?thesis
    unfolding handle_intent_def by (simp add: a b Let_def set_mode_def)
qed

lemma lf_process_inquiry [simp]:
  "latest_frame (session (process_inquiry env1 env2 rep dat w)) = latest_frame (session w)"
proof -
  have h: "\<And>env intent result w e w1. handle_intent env intent result w = (e, w1)
      \<Longrightarrow> latest_frame (session w1) = latest_frame (session w)"
    using lf_handle_intent by (metis snd_conv)
  show ?thesis
    unfolding process_inquiry_def
    by (auto simp add: Let_def split: reply.splits prod.splits sum.splits dest!: h)
qed

lemma lf_receive_inquiry [simp]:
  "latest_frame (session (receive_inquiry now env1 env2 rep dat w)) = latest_frame (session w)"
  by (simp add: receive_inquiry_def Let_def)

subsection \<open>What the \<open>try\<close> blocks leave alone\<close>

lemma untouched_refl [simp]: "untouched w w"
  by (simp add: untouched_def)

lemma untouched_trans: "untouched w w1 \<Longrightarrow> untouched w1 w2 \<Longrightarrow> untouched w w2"
  by (simp add: untouched_def)

lemma untouched_basic [simp]:
  "untouched w (send m w)"
  "untouched w (set_task_state ts w)"
  "untouched w (set_mode md w)"
  "untouched w (count_processed w)"
  by (simp_all add: untouched_def send_def set_task_state_def set_mode_def count_processed_def)

lemma untouched_basic_after:
  "untouched w w1 \<Longrightarrow> untouched w (send m w1)"
  "untouched w w1 \<Longrightarrow> untouched w (set_task_state ts w1)"
  "untouched w w1 \<Longrightarrow> untouched w (set_mode md w1)"
  "untouched w w1 \<Longrightarrow> untouched w (count_processed w1)"
  by (simp_all add: untouched_def send_def set_task_state_def set_mode_def count_processed_def)

lemma untouched_micro_try: "untouched w (snd (micro_try dec rep w))"
  by (simp add: micro_try_def untouched_basic_after split: option.splits reply.splits)

lemma untouched_task_verdict: "untouched w (snd (task_verdict env r idx w))"
  by (simp add: task_verdict_def Let_def untouched_def send_def set_task_state_def set_mode_def
      count_processed_def)

lemma untouched_task_try: "untouched w (snd (task_try env dec rep idx w))"
  by (simp add: task_try_def untouched_task_verdict split: option.splits reply.splits)

lemma untouched_remember: "untouched w (remember env result f w)"
  by (simp add: remember_def Let_def untouched_def update_memory_def)

lemma untouched_speech_decision: "untouched w (snd (speech_decision env f speech_text w))"
  by (simp add: speech_decision_def Let_def untouched_def send_def split: option.splits)

lemma untouched_track_objects: "untouched w (snd (track_objects env result w))"
  by (simp add: track_objects_def Let_def untouched_def split: option.splits prod.splits sum.splits)

lemma untouched_report: "untouched w (report f ui w)"
  by (simp add: report_def Let_def untouched_def send_def count_processed_def)

lemma untouched_nav_pipeline: "untouched w (snd (nav_pipeline env result w))"
proof (cases "read_fields result")
  case (Inl e)
  then show ?thesis by (simp add: nav_pipeline_def)
next
  case (Inr f)
  let ?w1 = "remember env result f w"
  have u1: "untouched w ?w1" by (rule untouched_remember)
  show ?thesis
  proof (cases "target_alert f ?w1")
    case (Some e)
    then show ?thesis using Inr u1 by (simp add: nav_pipeline_def)
  next
    case None
    note ta = None
    show ?thesis
    proof (cases "distance_speech f")
      case (Inl e)
      then show ?thesis using Inr ta u1 by (simp add: nav_pipeline_def)
    next
      case ds: (Inr speech_text)
      obtain r2 w2 where sd: "speech_decision env f speech_text ?w1 = (r2, w2)"
        by (cases "speech_decision env f speech_text ?w1") auto
      have u2: "untouched w w2"
        using untouched_trans [OF u1 untouched_speech_decision [of ?w1 env f speech_text]] sd
        by simp
      show ?thesis
      proof (cases r2)
        case (Inl e)
        then show ?thesis using Inr ta ds sd u2 by (simp add: nav_pipeline_def)
      next
        case sp: (Inr speak)
        obtain r3 w3 where tr: "track_objects env result w2 = (r3, w3)"
          by (cases "track_objects env result w2") auto
        have u3: "untouched w w3"
          using untouched_trans [OF u2 untouched_track_objects [of w2 env result]] tr by simp
        show ?thesis
        proof (cases r3)
          case (Inl e)
          then show ?thesis using Inr ta ds sd sp tr u3 by (simp add: nav_pipeline_def)
        next
          case (Inr ui)
          have "untouched w (report f ui w3)"
            by (rule untouched_trans [OF u3 untouched_report])
          then show ?thesis
            using \<open>read_fields result = Inr f\<close> ta ds sd sp tr Inr
            by (simp add: nav_pipeline_def)
        qed
      qed
    qed
  qed
qed


lemma lf_handler_try:
  assumes "handler_try h io w = Some (r, w1)"
  shows "latest_frame (session w1) = latest_frame (session w)"
proof (cases "(h, io, w)" rule: handler_try.cases)
  case (1 target dec rep w')
  with assms untouched_micro_try [of w dec rep] show ?thesis by (simp add: untouched_def)
next
  case (2 idx env dec rep w')
  with assms untouched_task_try [of w env dec rep idx] show ?thesis by (simp add: untouched_def)
next
  case (3 env dec rep w')
  with assms have n: "nav_try env dec rep w = (r, w1)" by simp
  show ?thesis
  proof (cases "\<exists>result. raised_by dec rep = None \<and> rep = Json result")
    case True
    then obtain result where "raised_by dec rep = None" "rep = Json result" by blast
    with n untouched_nav_pipeline [of w env result] show ?thesis
      by (simp add: nav_try_def untouched_def)
  next
    case False
    with n show ?thesis
      by (cases rep; cases "raised_by dec rep") (auto simp add: nav_try_def)
  qed
qed (use assms in auto)

lemma handlers_return: "run_handler h io w \<noteq> Some (Inl e)"
  by (cases "(h, io, w)" rule: run_handler.cases) (auto split: option.splits)

lemma run_handler_cases:
  assumes "run_handler h io w = Some (Inr w1)"
  shows "w1 = w \<or> (\<exists>r. handler_try h io w = Some r \<and> w1 = try_except h r)"
  using assms
  by (cases "(h, io, w)" rule: run_handler.cases) (auto split: option.splits)

lemma lf_run_handler:
  assumes "run_handler h io w = Some (Inr w1)"
  shows "latest_frame (session w1) = latest_frame (session w)"
proof -
  from run_handler_cases [OF assms] show ?thesis
  proof
    assume "w1 = w"
    then show ?thesis by simp
  next
    assume "\<exists>r. handler_try h io w = Some r \<and> w1 = try_except h r"
    then obtain r where t: "handler_try h io w = Some r" and w1: "w1 = try_except h r"
      by blast
    obtain x w2 where r: "r = (x, w2)" by (cases r) auto
    from lf_handler_try [of h io w x w2] t r
    have "latest_frame (session w2) = latest_frame (session w)" by simp
    then show ?thesis using w1 r by (cases x) (simp_all add: try_except_def)
  qed
qed

lemma lf_finally [simp]:
  "latest_frame (session (loop_finally w)) = latest_frame (session w)"
  by (simp add: loop_finally_def Let_def)

lemma lf_finish [simp]:
  "latest_frame (session (finish io w)) = latest_frame (session w)"
  by (auto simp add: finish_def handlers_return
      split: consumer_state.splits option.splits sum.splits dest: lf_run_handler)

lemma lf_disconnect [simp]:
  "latest_frame (session (disconnect now w)) = latest_frame (session w)"
  by (simp add: disconnect_def Let_def split: consumer_state.splits)

lemma lf_start_handler [simp]:
  "latest_frame (session (snd (start_handler m fr w))) = latest_frame (session w)"
  by (simp add: start_handler_def micro_start_def task_start_def Let_def)

lemma lf_wake:
  "latest_frame (session (wake w)) = None \<or> latest_frame (session (wake w)) = latest_frame (session w)"
  by (simp add: wake_def Let_def split_beta split: option.splits)

lemma lf_submit:
  "latest_frame (session (submit b w)) = Some \<lparr>f_image = b, f_heading = 0, f_task = ''navigation''\<rparr>"
  by (simp add: submit_def Let_def)

lemma stopped_stays: "consumer w = Stopped \<Longrightarrow> step ev w = w"
  by (simp add: step_def)

lemma run_append: "run (xs @ ys) w = run ys (run xs w)"
  by (induction xs arbitrary: w) simp_all

lemma last_submitted_snoc:
  "last_submitted (evs @ [ev]) =
     (case ev of Submit b \<Rightarrow> Some \<lparr>f_image = b, f_heading = 0, f_task = ''navigation''\<rparr>
      | other \<Rightarrow> last_submitted evs)"
  by (induction evs) (auto split: event.splits option.splits)

lemma mailbox_invariant:
  assumes "latest_frame (session w0) = None"
  shows "consumer (run evs w0) = Stopped
         \<or> latest_frame (session (run evs w0)) = None
         \<or> latest_frame (session (run evs w0)) = last_submitted evs"
proof (induction evs rule: rev_induct)
  case Nil
  then show ?case using assms by simp
next
  case (snoc ev evs)
  let ?w = "run evs w0"
  have r: "run (evs @ [ev]) w0 = step ev ?w" by (simp add: run_append)
  show ?case
  proof (cases "consumer ?w = Stopped")
    case True
    then show ?thesis by (simp add: r stopped_stays)
  next
    case False
    show ?thesis
    proof (cases ev)
      case (Submit b)
      then show ?thesis using False by (simp add: run_append step_def lf_submit last_submitted_snoc)
    next
      case (Inquiry now env1 env2 rep dat)
      then show ?thesis using False snoc.IH by (simp add: run_append step_def last_submitted_snoc)
    next
      case Wake
      then show ?thesis using False snoc.IH lf_wake [of ?w]
        by (auto simp add: run_append step_def last_submitted_snoc)
    next
      case (Finish io)
      then show ?thesis using False snoc.IH by (simp add: run_append step_def last_submitted_snoc)
    next
      case (Disconnect now)
      then show ?thesis using False snoc.IH by (simp add: run_append step_def last_submitted_snoc)
    qed
  qed
qed

lemma connect_mailbox: "latest_frame (session (connect now g mem)) = None"
  by (simp add: connect_def Let_def SessionState_init_def set_mode_def set_task_state_def
      split: option.splits)

lemma wake_claims:
  "consumer w = Waiting \<Longrightarrow> consumer (step Wake w) = Handling h fr \<Longrightarrow> latest_frame (session w) = Some fr"
  by (auto simp add: step_def wake_def Let_def split_beta split: if_splits option.splits)

subsection \<open>The consumer\<close>




lemma cs_basic [simp]:
  "consumer (send m w) = consumer w"
  "consumer (logging l w) = consumer w"
  "consumer (set_task_state ts w) = consumer w"
  "consumer (set_mode md w) = consumer w"
  "consumer (inquiry_error e w) = consumer w"
  by (simp_all add: send_def logging_def set_task_state_def set_mode_def inquiry_error_def)

lemma cs_task_control_finish [simp]:
  "consumer (snd (task_control_finish now txt w)) = consumer w"
  by (simp add: task_control_finish_def Let_def)

lemma cs_handle_task_control [simp]:
  "consumer (snd (handle_task_control now intent w)) = consumer w"
  by (simp add: handle_task_control_def Let_def)

lemma cs_generate_task_plan [simp]:
  "consumer (snd (generate_task_plan env tname w)) = consumer w"
  by (simp add: generate_task_plan_def Let_def split: ext.splits plan_data.splits list.splits)

lemma cs_handle_intent [simp]:
  "consumer (snd (handle_intent env intent result w)) = consumer w"
proof -
  have a: "\<And>p. consumer (snd (case p of (text, w1) \<Rightarrow> (Inr (Some text) :: exn + string option, w1)))
      = consumer (snd p)" by (simp add: split_beta)
  have b: "\<And>p. consumer (snd (case p of (Inl e, w1) \<Rightarrow> (Inl e :: exn + string option, w1)
         | (Inr text, w1) \<Rightarrow> (Inr (Some text), w1))) = consumer (snd p)"
    by (simp add: split_beta split: sum.splits)
  show ?thesis
    unfolding handle_intent_def by (simp add: a b Let_def set_mode_def)
qed

lemma cs_process_inquiry [simp]:
  "consumer (process_inquiry env1 env2 rep dat w) = consumer w"
proof -
  have h: "\<And>env intent result w e w1. handle_intent env intent result w = (e, w1)
      \<Longrightarrow> consumer w1 = consumer w"
    using cs_handle_intent by (metis snd_conv)
  show ?thesis
    unfolding process_inquiry_def
    by (auto simp add: Let_def split: reply.splits prod.splits sum.splits dest!: h)
qed

lemma cs_receive_inquiry [simp]:
  "consumer (receive_inquiry now env1 env2 rep dat w) = consumer w"
  by (simp add: receive_inquiry_def Let_def)


subsection \<open>The concrete connections\<close>








subsection \<open>Replies on which the navigation pipeline raises\<close>





section \<open>Results: object stability tracker\<close>

text \<open>
  C5. Every update of a tracked entry replaces the smoothed distance by
  \<open>old * 0.7 + new * 0.3\<close>, computed in floats as the source computes it. An entry created
  at raw distance 2.0 and updated once with raw distance 1.0 has the smoothed distance
  that Python writes 1.7, the float nearest to 1.7; the same holds through two calls of
  \<open>process_detections\<close> on a fresh tracker, one second apart.
\<close>

theorem update_is_exponential_moving_average:
  "distance (update t new_dist new_dir new_conf obj)
     = fadd (fmul (distance obj) (Fin 0.7)) (fmul new_dist (Fin 0.3))
   \<and> distance (update t (Fin 1.0) dir2 c2 (new_tracked now nm cat c1 (Fin 2.0) dir1))
       = py_float (Fin 1.7)
   \<and> map distance (map snd (tracked_objects (snd (process_detections 1 clk [chair 1.0]
        (snd (process_detections 0 clk' [chair 2.0] VisualTracker_init)))))) = [py_float (Fin 1.7)]"
proof (intro conjI)
  show "distance (update t new_dist new_dir new_conf obj)
     = fadd (fmul (distance obj) (Fin 0.7)) (fmul new_dist (Fin 0.3))"
    by (simp add: update_def Let_def)
  have ema: "fadd (fmul (Fin 2) (Fin 0.7)) (fmul (Fin 1) (Fin 0.3)) = py_float (Fin 1.7)"
    by (simp add: float_eval)
  show "distance (update t (Fin 1.0) dir2 c2 (new_tracked now nm cat c1 (Fin 2.0) dir1))
       = py_float (Fin 1.7)"
    using ema by (simp add: update_def Let_def new_tracked_def)
  have thr: "\<not> flt (Fin 90) (Fin 75)" by (simp add: float_eval)
  have two: "fl 2 = Fin 2" "fl 1 = Fin 1" by (simp_all add: float_eval)
  have low: "lower ''Chair'' = ''chair''" by (simp add: lower_def lower_char_def)
  show "map distance (map snd (tracked_objects (snd (process_detections 1 clk [chair 1.0]
        (snd (process_detections 0 clk' [chair 2.0] VisualTracker_init)))))) = [py_float (Fin 1.7)]"
    using ema
    by (simp add: process_detections_def prune_expired_def ingest_one_def chair_def
        VisualTracker_init_def Let_def update_def new_tracked_def low thr two)
qed

text \<open>
  C10 as stated fails. The detection has the name \<open>Cup\<close>, no \<open>confidence_score\<close> key, and
  \<open>null\<close> for its distance. On a fresh tracker with the default threshold the call of
  \<open>process_detections\<close> raises \<open>TypeError\<close> and leaves the tracker without any entry: the
  detection passes the confidence test and then neither creates nor updates an entry.
\<close>

theorem detection_without_distance_is_not_tracked:
  "d_name cup_without_distance = Val ''Cup'' \<and> d_confidence_score cup_without_distance = Absent
   \<and> d_distance cup_without_distance = Null
   \<and> process_detections 0 (\<lambda>i. 0) [cup_without_distance] VisualTracker_init
       = (Inl TypeError, VisualTracker_init)"
  by (simp add: process_detections_def prune_expired_def ingest_one_def cup_without_distance_def
      cup_def VisualTracker_init_def default_confidence_meets_threshold)

text \<open>
  C10 amended. A detection with a non-empty name and no \<open>confidence_score\<close> key, met by a
  tracker with the default threshold 75, is handled with confidence 100 and is not skipped
  as low-confidence. If its distance is absent or a number, the loop body leaves under the
  lower-cased name the old entry updated (clock, count, raw values, confidence 100,
  smoothed distance, stability) or a new entry with count 1 and confidence 100. If its
  distance is \<open>null\<close>, the loop body raises \<open>TypeError\<close>, and so does every call of
  \<open>process_detections\<close> whose list holds the detection. A call whose list holds the
  detection and that returns leaves an entry under that key.
\<close>

theorem missing_confidence_score_is_tracked:
  assumes "d_name det = Val nm" and "nm \<noteq> []" and "d_confidence_score det = Absent"
    and "confidence_threshold trk = 75"
  shows "ingest_one now t det trk =
           (case dget (d_distance det) (Fin 0) of
              None \<Rightarrow> Inl TypeError
            | Some x \<Rightarrow>
                Inr (trk\<lparr>tracked_objects :=
                       dict_set (lower nm)
                         (case dict_get (tracked_objects trk) (lower nm) of
                            Some obj \<Rightarrow>
                              obj\<lparr>last_seen := t,
                                  frames_detected := frames_detected obj + 1,
                                  raw_distance := py_float x,
                                  raw_direction := dget (d_direction det) ''ahead'',
                                  confidence := Fin 100,
                                  distance := fadd (fmul (distance obj) (Fin 0.7))
                                                (fmul (py_float x) (Fin 0.3)),
                                  direction := dget (d_direction det) ''ahead'',
                                  is_stable := (1 \<le> frames_detected obj \<or> is_stable obj)\<rparr>
                          | None \<Rightarrow>
                              \<lparr>name = nm, category = dget (d_category det) ''unknown'',
                               confidence = Fin 100, raw_distance = py_float x,
                               raw_direction = dget (d_direction det) ''ahead'',
                               distance = py_float x,
                               direction = dget (d_direction det) ''ahead'',
                               last_seen = now, frames_detected = 1, is_stable = False\<rparr>)
                         (tracked_objects trk)\<rparr>))
       \<and> (d_distance det = Null
            \<longrightarrow> fst (process_detections now clk (pre @ det # post) trk) = Inl TypeError)
       \<and> (\<forall>stable trk1. process_detections now clk (pre @ det # post) trk = (Inr stable, trk1)
             \<longrightarrow> dict_get (tracked_objects trk1) (lower nm) \<noteq> None)"
proof (intro conjI)
  show "ingest_one now t det trk =
           (case dget (d_distance det) (Fin 0) of
              None \<Rightarrow> Inl TypeError
            | Some x \<Rightarrow>
                Inr (trk\<lparr>tracked_objects :=
                       dict_set (lower nm)
                         (case dict_get (tracked_objects trk) (lower nm) of
                            Some obj \<Rightarrow>
                              obj\<lparr>last_seen := t,
                                  frames_detected := frames_detected obj + 1,
                                  raw_distance := py_float x,
                                  raw_direction := dget (d_direction det) ''ahead'',
                                  confidence := Fin 100,
                                  distance := fadd (fmul (distance obj) (Fin 0.7))
                                                (fmul (py_float x) (Fin 0.3)),
                                  direction := dget (d_direction det) ''ahead'',
                                  is_stable := (1 \<le> frames_detected obj \<or> is_stable obj)\<rparr>
                          | None \<Rightarrow>
                              \<lparr>name = nm, category = dget (d_category det) ''unknown'',
                               confidence = Fin 100, raw_distance = py_float x,
                               raw_direction = dget (d_direction det) ''ahead'',
                               distance = py_float x,
                               direction = dget (d_direction det) ''ahead'',
                               last_seen = now, frames_detected = 1, is_stable = False\<rparr>)
                         (tracked_objects trk)\<rparr>))"
    using assms by (rule ingest_one_default_confidence)
next
  have thr: "confidence_threshold (prune_expired now trk) = 75"
    using assms(4) by (simp add: prune_expired_def)
  note loop = ingest_loop_reaches [OF assms(1,2,3) thr, of now clk pre post]
  show "d_distance det = Null
          \<longrightarrow> fst (process_detections now clk (pre @ det # post) trk) = Inl TypeError"
    using loop by (auto simp add: process_detections_def split: prod.splits option.splits)
  show "\<forall>stable trk1. process_detections now clk (pre @ det # post) trk = (Inr stable, trk1)
          \<longrightarrow> dict_get (tracked_objects trk1) (lower nm) \<noteq> None"
    using loop by (auto simp add: process_detections_def split: prod.splits option.splits)
qed

theorem missing_confidence_score_is_tracked_witness:
  "d_name cup = Val ''Cup'' \<and> ''Cup'' \<noteq> [] \<and> d_confidence_score cup = Absent
   \<and> confidence_threshold VisualTracker_init = 75
   \<and> ingest_one 0 0 cup VisualTracker_init =
       Inr (VisualTracker_init\<lparr>tracked_objects :=
              [(''cup'', \<lparr>name = ''Cup'', category = Some ''unknown'', confidence = Fin 100,
                          raw_distance = Fin 1.5, raw_direction = Some ''ahead'',
                          distance = Fin 1.5, direction = Some ''ahead'', last_seen = 0,
                          frames_detected = 1, is_stable = False\<rparr>)]\<rparr>)
   \<and> map fst (tracked_objects (snd (process_detections 0 (\<lambda>i. 0) ([chair 2] @ cup # [])
          VisualTracker_init))) = [''chair'', ''cup'']
   \<and> dict_get (tracked_objects (snd (process_detections 0 (\<lambda>i. 0) ([chair 2] @ cup # [])
          VisualTracker_init))) (lower ''Cup'') \<noteq> None
   \<and> d_name cup_without_distance = Val ''Cup'' \<and> d_confidence_score cup_without_distance = Absent
   \<and> d_distance cup_without_distance = Null
   \<and> fst (process_detections 0 (\<lambda>i. 0) ([chair 2] @ cup_without_distance # [cup])
          VisualTracker_init) = Inl TypeError"
proof -
  have h1: "d_name cup = Val ''Cup''" by (simp add: cup_def)
  have h2: "''Cup'' \<noteq> []" by simp
  have h3: "d_confidence_score cup = Absent" by (simp add: cup_def)
  have h4: "confidence_threshold VisualTracker_init = 75" by (simp add: VisualTracker_init_def)
  have n1: "d_name cup_without_distance = Val ''Cup''"
    by (simp add: cup_without_distance_def cup_def)
  have n3: "d_confidence_score cup_without_distance = Absent"
    by (simp add: cup_without_distance_def cup_def)
  have n5: "d_distance cup_without_distance = Null" by (simp add: cup_without_distance_def)
  have low: "lower ''Cup'' = ''cup''" "lower ''Chair'' = ''chair''"
    by (simp_all add: lower_def lower_char_def)
  have fl: "fl (3 / 2) = Fin (3 / 2)" "fl 2 = Fin 2" "\<not> flt (Fin 90) (Fin 75)"
    by (simp_all add: float_eval)
  have run: "process_detections 0 (\<lambda>i. 0) [chair 2, cup] VisualTracker_init
      = (Inr [], VisualTracker_init\<lparr>tracked_objects :=
            [(''chair'', new_tracked 0 ''Chair'' (Some ''furniture'') (Fin 90) (Fin 2) (Some ''left'')),
             (''cup'', new_tracked 0 ''Cup'' (Some ''unknown'') (Fin 100) (Fin 1.5) (Some ''ahead''))]\<rparr>)"
    by (simp add: process_detections_def prune_expired_def ingest_one_def chair_def cup_def
        VisualTracker_init_def Let_def low fl default_confidence_meets_threshold new_tracked_def)
  note pos = missing_confidence_score_is_tracked [OF h1 h2 h3 h4, of 0 0 "\<lambda>i. 0" "[chair 2]" "[]"]
  note neg = missing_confidence_score_is_tracked [OF n1 h2 n3 h4, of 0 0 "\<lambda>i. 0" "[chair 2]" "[cup]"]
  have a: "ingest_one 0 0 cup VisualTracker_init =
       Inr (VisualTracker_init\<lparr>tracked_objects :=
              [(''cup'', \<lparr>name = ''Cup'', category = Some ''unknown'', confidence = Fin 100,
                          raw_distance = Fin 1.5, raw_direction = Some ''ahead'',
                          distance = Fin 1.5, direction = Some ''ahead'', last_seen = 0,
                          frames_detected = 1, is_stable = False\<rparr>)]\<rparr>)"
    using conjunct1 [OF pos] by (simp add: cup_def low fl VisualTracker_init_def)
  have b: "dict_get (tracked_objects (snd (process_detections 0 (\<lambda>i. 0) ([chair 2] @ cup # [])
          VisualTracker_init))) (lower ''Cup'') \<noteq> None"
    using conjunct2 [OF conjunct2 [OF pos]] run by simp
  have c: "map fst (tracked_objects (snd (process_detections 0 (\<lambda>i. 0) ([chair 2] @ cup # [])
          VisualTracker_init))) = [''chair'', ''cup'']"
    by (simp add: run)
  have d: "fst (process_detections 0 (\<lambda>i. 0) ([chair 2] @ cup_without_distance # [cup])
          VisualTracker_init) = Inl TypeError"
    using conjunct1 [OF conjunct2 [OF neg]] n5 by simp
  show ?thesis by (intro conjI h1 h2 h3 h4 a b c n1 n3 n5 d)
qed

text \<open>
  C4, evaluated on the code. The tracker is fresh, and one single call of
  \<open>process_detections\<close> gets a list with two detections named \<open>Chair\<close>. The first creates the
  entry, the second updates it: the call returns the chair as stable, with a count of 2,
  although the name has been detected in one call only.
\<close>

theorem duplicate_name_in_one_call_is_stable:
  "process_detections 0 (\<lambda>i. 0) [chair 2, chair 2] VisualTracker_init =
     (Inr [\<lparr>name = ''Chair'', category = Some ''furniture'', confidence = Fin 90,
            raw_distance = Fin 2, raw_direction = Some ''left'', distance = Fin 2,
            direction = Some ''left'', last_seen = 0, frames_detected = 2, is_stable = True\<rparr>],
      VisualTracker_init\<lparr>tracked_objects :=
        [(''chair'',
          \<lparr>name = ''Chair'', category = Some ''furniture'', confidence = Fin 90,
           raw_distance = Fin 2, raw_direction = Some ''left'', distance = Fin 2,
           direction = Some ''left'', last_seen = 0, frames_detected = 2, is_stable = True\<rparr>)]\<rparr>)"
proof -
  have low: "lower ''Chair'' = ''chair''" by (simp add: lower_def lower_char_def)
  have fl: "fl 2 = Fin 2" "\<not> flt (Fin 90) (Fin 75)"
    "fadd (fmul (Fin 2) (Fin (7 / 10))) (fmul (Fin 2) (Fin (3 / 10))) = Fin 2"
    by (simp_all add: float_eval)
  show ?thesis
    by (simp add: process_detections_def prune_expired_def ingest_one_def chair_def
        VisualTracker_init_def Let_def update_def new_tracked_def low fl)
qed

section \<open>Results: speech gate\<close>

text \<open>
  C6. Whatever the state of the speech gate and whatever the clock says, \<open>should_speak\<close>
  with priority \<open>critical\<close> answers \<open>(True, critical_alert)\<close>; this holds in particular in
  the state that \<open>record_speech\<close> has just left, with the same arguments.
\<close>

theorem critical_always_speaks:
  "should_speak now now' sm ''critical'' subject dir cat dst speech_text = (True, ''critical_alert'')
   \<and> should_speak now now' (record_speech t sm speech_text ''critical'' subject dir cat dst)
        ''critical'' subject dir cat dst speech_text = (True, ''critical_alert'')"
  by (simp add: should_speak_def Let_def)

text \<open>
  C7. No speech is in progress at either reading of the clock, the candidate has the
  semantic key that was spoken last, and the distance change that the gate computes, the
  float \<open>last_distance - distance\<close>, is not above 0.5. Then a \<open>medium\<close> candidate is
  suppressed two seconds after the last speech (same-context cooldown, two seconds left)
  and spoken five seconds after it (interval passed).
\<close>

theorem medium_same_context_cooldown:
  assumes "\<not> is_speaking now1 sm" and "\<not> is_speaking now2 sm"
    and "extract_semantic_key subject dir cat = last_semantic_key sm"
    and "\<not> flt (Fin 0.5) (distance_change sm dst)"
  shows "should_speak (last_speech_time sm + 2) now1 sm ''medium'' subject dir cat dst speech_text
           = (False, ''same_context_cooldown (2s left)'')
       \<and> should_speak (last_speech_time sm + 5) now2 sm ''medium'' subject dir cat dst speech_text
           = (True, ''interval_passed'')"
  using assms
  by (simp add: should_speak_def Let_def check_same_context_def cooldowns_def
      MEDIUM_REPEAT_INTERVAL_def py_int_def show_int_def digit_char_def)

theorem medium_same_context_cooldown_witness:
  "\<not> is_speaking 102 gate_after_door \<and> \<not> is_speaking 105 gate_after_door
   \<and> extract_semantic_key ''grey door'' ''ahead'' ''navigation'' = last_semantic_key gate_after_door
   \<and> \<not> flt (Fin 0.5) (distance_change gate_after_door (Fin 1.8))
   \<and> should_speak (last_speech_time gate_after_door + 2) 102 gate_after_door ''medium''
        ''grey door'' ''ahead'' ''navigation'' (Fin 1.8) ''Door ahead''
        = (False, ''same_context_cooldown (2s left)'')
   \<and> should_speak (last_speech_time gate_after_door + 5) 105 gate_after_door ''medium''
        ''grey door'' ''ahead'' ''navigation'' (Fin 1.8) ''Door ahead''
        = (True, ''interval_passed'')"
proof -
  have h1: "\<not> is_speaking 102 gate_after_door"
    by (simp add: gate_after_door_eval is_speaking_def)
  have h2: "\<not> is_speaking 105 gate_after_door"
    by (simp add: gate_after_door_eval is_speaking_def)
  have h3: "extract_semantic_key ''grey door'' ''ahead'' ''navigation''
              = last_semantic_key gate_after_door"
    by (simp add: gate_after_door_eval extract_semantic_key_def Let_def lower_def lower_char_def
        strip_def is_space_def py_split_def ignore_words_def)
  have h4: "\<not> flt (Fin 0.5) (distance_change gate_after_door (Fin 1.8))"
    by (simp add: gate_after_door_eval distance_change_def float_eval)
  from medium_same_context_cooldown [OF h1 h2 h3 h4, of "''Door ahead''"] h1 h2 h3 h4
  show ?thesis by blast
qed

section \<open>Results: persistent memory\<close>

text \<open>
  C9, evaluated on the code. The store holds a chair logged at time 0 and a door logged
  at time 1. A door logged at time 2 is dropped as a repeat of the last entry. A chair
  logged at time 2 has the name of an entry that is two seconds old, and it is appended
  all the same, because only the last entry (the door) is compared.
\<close>

theorem repeat_behind_another_object_is_appended:
  "history_of memory_chair_door =
     [\<lparr>h_object = ''chair'', h_location = None, h_scene = Some ''a room'', h_timestamp = 0\<rparr>,
      \<lparr>h_object = ''door'', h_location = None, h_scene = Some ''a room'', h_timestamp = 1\<rparr>]
   \<and> history_of (log_object 2 2 True ''door'' None (Some ''a room'') memory_chair_door) =
     [\<lparr>h_object = ''chair'', h_location = None, h_scene = Some ''a room'', h_timestamp = 0\<rparr>,
      \<lparr>h_object = ''door'', h_location = None, h_scene = Some ''a room'', h_timestamp = 1\<rparr>]
   \<and> history_of (log_object 2 2 True ''chair'' None (Some ''a room'') memory_chair_door) =
     [\<lparr>h_object = ''chair'', h_location = None, h_scene = Some ''a room'', h_timestamp = 0\<rparr>,
      \<lparr>h_object = ''door'', h_location = None, h_scene = Some ''a room'', h_timestamp = 1\<rparr>,
      \<lparr>h_object = ''chair'', h_location = None, h_scene = Some ''a room'', h_timestamp = 2\<rparr>]"
  by (simp add: history_of_log_object memory_chair_door_history lower_chair_door)

section \<open>Results: task state machine\<close>

text \<open>
  C2, evaluated on the code. The task is active at step index 0 of a plan of three steps.
  One inquiry classified \<open>task_skip\<close> is processed: \<open>_handle_intent\<close> runs twice, so the index
  is 2 afterwards, the steps 0 and 1 are both marked completed, and the text spoken is the
  instruction of the step at index 2.
\<close>

theorem task_skip_inquiry_advances_two_steps:
  "is_active (task_state (session tea_world))
   \<and> current_step_index (task_state (session tea_world)) = 0
   \<and> 0 + 2 < length (plan (task_state (session tea_world)))
   \<and> current_step_index (task_state (session
        (receive_inquiry 2 (planner 2) (planner 2) (Json (said ''task_skip'' None)) voice
           tea_world))) = 2
   \<and> map completed (plan (task_state (session
        (receive_inquiry 2 (planner 2) (planner 2) (Json (said ''task_skip'' None)) voice
           tea_world)))) = [True, True, False]
   \<and> last (outbox
        (receive_inquiry 2 (planner 2) (planner 2) (Json (said ''task_skip'' None)) voice
           tea_world)) = Speak ''Done. Next: Pour the water''"
  by (simp add: tea_world_def receive_inquiry_def process_inquiry_def handle_intent_def
      generate_task_plan_def handle_task_control_def task_control_finish_def
      connect_def is_valid_def GlobalTaskState_init_def Let_def set_mode_def
      set_task_state_def send_def voice_def said_def planner_def tea_plan_def
      SessionState_init_def update_from_def)

text \<open>
  C8 as stated fails. The durable state is active, was updated ten seconds ago, and its
  index equals the length of its plan. A new connection adopts it and sets the mode to
  task, and sends the task update only: there is no current step to announce.
\<close>

theorem resumed_task_past_its_last_step_is_not_announced:
  "g_is_active finished_task \<and> 10 - last_updated finished_task < 300
   \<and> task_state (session (connect 10 finished_task PersistentMemory_init))
       = to_task_state finished_task
   \<and> mode (session (connect 10 finished_task PersistentMemory_init)) = ''task''
   \<and> outbox (connect 10 finished_task PersistentMemory_init) = [TaskUpdate tea_plan 3 Restored]"
  by (simp add: connect_def is_valid_def finished_task_def Let_def set_mode_def
      set_task_state_def to_task_state_def send_def current_step_def tea_plan_def
      SessionState_init_def)

text \<open>
  C8 amended. A new connection has mode task exactly when the durable state is active and
  was updated less than 300 seconds before; then its task state is the durable one, else
  the empty one. On adoption it sends a task update marked as restored, followed by the
  announcement of the current step's instruction when the index is within the plan, and
  by nothing otherwise. A state updated 301 seconds ago is not adopted; an active one
  updated 10 seconds ago is.
\<close>

theorem task_resumption_on_connect:
  "(mode (session (connect now g mem)) = ''task'') = (g_is_active g \<and> now - last_updated g < 300)
   \<and> task_state (session (connect now g mem)) =
       (if g_is_active g \<and> now - last_updated g < 300 then to_task_state g else TaskState_init)
   \<and> outbox (connect now g mem) =
       (if g_is_active g \<and> now - last_updated g < 300
        then TaskUpdate (g_plan g) (g_current_step_index g) Restored #
             (if g_current_step_index g < length (g_plan g)
              then [Speak (''Resuming. Step: '' @ instruction (g_plan g ! g_current_step_index g))]
              else [])
        else [])
   \<and> mode (session (connect (last_updated g + 301) g mem)) = ''nav''
   \<and> mode (session (connect (last_updated g + 10) (g\<lparr>g_is_active := True\<rparr>) mem)) = ''task''"
  by (auto simp add: connect_def is_valid_def Let_def set_mode_def set_task_state_def
      to_task_state_def send_def current_step_def SessionState_init_def)

section \<open>Results: ingestion loop\<close>

text \<open>
  C1. Take any sequence of steps of a connection: frames submitted, inquiries, wake-ups
  of the consumer, handlers finishing, whatever the handlers and the gateway do. If the
  consumer is waiting after them and its next wake-up claims a frame, that frame is the
  payload of the last binary message received so far: never an earlier one.
\<close>

theorem claimed_frame_is_latest_submitted:
  assumes "consumer (run evs (connect now g mem)) = Waiting"
    and "consumer (step Wake (run evs (connect now g mem))) = Handling h fr"
  shows "last_submitted evs = Some fr"
proof -
  from wake_claims [OF assms]
  have "latest_frame (session (run evs (connect now g mem))) = Some fr" .
  with mailbox_invariant [OF connect_mailbox, where evs = evs and now1 = now and g1 = g
         and mem1 = mem] assms(1)
  show ?thesis by auto
qed

theorem claimed_frame_is_latest_submitted_witness:
  "consumer (run busy_run (connect 0 GlobalTaskState_init PersistentMemory_init)) = Waiting
   \<and> consumer (step Wake (run busy_run (connect 0 GlobalTaskState_init PersistentMemory_init)))
       = Handling Nav \<lparr>f_image = ''c'', f_heading = 0, f_task = ''navigation''\<rparr>
   \<and> last_submitted busy_run = Some \<lparr>f_image = ''c'', f_heading = 0, f_task = ''navigation''\<rparr>"
proof -
  have h1: "consumer (run busy_run (connect 0 GlobalTaskState_init PersistentMemory_init))
              = Waiting"
    by (simp add: busy_run_def connect_def is_valid_def GlobalTaskState_init_def
        SessionState_init_def step_def submit_def wake_def finish_def start_handler_def
        nav_try_def try_except_def raised_by_def nav_except_def skip_frame_def logging_def
        loop_finally_def Let_def)
  have h2: "consumer (step Wake (run busy_run
              (connect 0 GlobalTaskState_init PersistentMemory_init)))
              = Handling Nav \<lparr>f_image = ''c'', f_heading = 0, f_task = ''navigation''\<rparr>"
    by (simp add: busy_run_def connect_def is_valid_def GlobalTaskState_init_def
        SessionState_init_def step_def submit_def wake_def finish_def start_handler_def
        nav_try_def try_except_def raised_by_def nav_except_def skip_frame_def logging_def
        loop_finally_def Let_def)
  from claimed_frame_is_latest_submitted [OF h1 h2] h1 h2 show ?thesis by simp
qed




end
